theory Spec2Isabelle
  imports Main "HOL-Library.Multiset"
begin

section \<open>JavaScript strings\<close>

text \<open>
  A JavaScript string is a sequence of UTF-16 code units, and \<open>length\<close>, \<open>substring\<close>,
  \<open>trim\<close> and the regular expressions of the source all work on code units. A string is
  modelled as the list of its code units, each a natural number (below 65536 for a real
  string; no statement below depends on the bound). \<open>str\<close> embeds an ASCII literal.
\<close>

type_synonym jsstring = "nat list"

definition str :: "string \<Rightarrow> jsstring" where
  "str s = map of_char s"

text \<open>
  The characters matched by \<open>\s\<close> in a regular expression and removed by
  \<open>String.prototype.trim\<close>: the ECMAScript WhiteSpace and LineTerminator code points.
\<close>

definition isSpace :: "nat \<Rightarrow> bool" where
  "isSpace c = (c = 9 \<or> c = 10 \<or> c = 11 \<or> c = 12 \<or> c = 13 \<or> c = 32 \<or> c = 160 \<or>
     c = 5760 \<or> (8192 \<le> c \<and> c \<le> 8202) \<or> c = 8232 \<or> c = 8233 \<or> c = 8239 \<or>
     c = 8287 \<or> c = 12288 \<or> c = 65279)"

text \<open>
  \<open>s.trim()\<close> removes the white space at both ends: \<open>trimStart\<close> drops the leading run,
  \<open>trimEnd\<close> cuts the string where only white space follows.
\<close>

definition trimStart :: "jsstring \<Rightarrow> jsstring" where
  "trimStart s = dropWhile isSpace s"

fun trimEnd :: "jsstring \<Rightarrow> jsstring" where
  "trimEnd [] = []"
| "trimEnd (c # cs) = (if list_all isSpace (c # cs) then [] else c # trimEnd cs)"

definition trim :: "jsstring \<Rightarrow> jsstring" where
  "trim s = trimEnd (trimStart s)"

text \<open>\<open>s.substring(0, n)\<close> for a non-negative integer \<open>n\<close>.\<close>

definition substring0 :: "nat \<Rightarrow> jsstring \<Rightarrow> jsstring" where
  "substring0 n s = take n s"

text \<open>\<open>s.padStart(2, '0')\<close>.\<close>

definition padStart2 :: "jsstring \<Rightarrow> jsstring" where
  "padStart2 s = replicate (2 - length s) 48 @ s"

text \<open>\<open>String(n)\<close> for a non-negative integer: its decimal digits.\<close>

fun decimal :: "nat \<Rightarrow> jsstring" where
  "decimal n = (if n < 10 then [48 + n] else decimal (n div 10) @ [48 + n mod 10])"

declare decimal.simps [simp del]

text \<open>\<open>String(i)\<close> for an integer.\<close>

definition showInt :: "int \<Rightarrow> jsstring" where
  "showInt i = (if i < 0 then 45 # decimal (nat (- i)) else decimal (nat i))"

text \<open>Decimal digits padded with zeros on the left to at least \<open>w\<close> digits.\<close>

definition padDigits :: "nat \<Rightarrow> nat \<Rightarrow> jsstring" where
  "padDigits w n = replicate (w - length (decimal n)) 48 @ decimal n"

section \<open>Dates\<close>

text \<open>
  A \<open>Date\<close> is its time value: milliseconds since the epoch, or NaN for an invalid date.
  What \<open>new Date(text)\<close> makes of a text is left to the JavaScript engine outside the ISO
  format, so the parser is a parameter \<open>P\<close> of every function that parses a date:
  \<open>P s = None\<close> when \<open>new Date(s).getTime()\<close> is NaN, and \<open>P s = Some t\<close> when it is \<open>t\<close>.
  The clock (\<open>new Date()\<close>, the current time value) is a parameter \<open>now\<close>.
\<close>

type_synonym date_parser = "jsstring \<Rightarrow> int option"

definition msPerDay :: int where
  "msPerDay = 86400000"

text \<open>
  Year, month (1 to 12) and day of month of the day number \<open>z\<close> (days since
  1970-01-01) in the proleptic Gregorian calendar, as ECMAScript's YearFromTime,
  MonthFromTime and DateFromTime compute them. The computation goes by 400-year eras
  that start on 1 March: \<open>doe\<close> is the day of the era, \<open>yoe\<close> the year of the era,
  \<open>doy\<close> the day of the year counted from 1 March and \<open>mp\<close> the month counted from
  March.
\<close>

definition yearOfEra :: "int \<Rightarrow> int" where
  "yearOfEra doe = (doe - doe div 1460 + doe div 36524 - doe div 146096) div 365"

definition dayOfYear :: "int \<Rightarrow> int \<Rightarrow> int" where
  "dayOfYear doe yoe = doe - (365 * yoe + yoe div 4 - yoe div 100)"

definition civilOfMonth :: "int \<Rightarrow> int \<Rightarrow> int \<Rightarrow> int \<times> nat \<times> nat" where
  "civilOfMonth y doy mp =
    (if mp < 10 then (y, nat (mp + 3), nat (doy - (153 * mp + 2) div 5 + 1))
     else (y + 1, nat (mp - 9), nat (doy - (153 * mp + 2) div 5 + 1)))"

definition civilOfYear :: "int \<Rightarrow> int \<Rightarrow> int \<times> nat \<times> nat" where
  "civilOfYear y doy = civilOfMonth y doy ((5 * doy + 2) div 153)"

definition civilOfEra :: "int \<Rightarrow> int \<Rightarrow> int \<times> nat \<times> nat" where
  "civilOfEra era doe =
     civilOfYear (yearOfEra doe + era * 400) (dayOfYear doe (yearOfEra doe))"

definition civil :: "int \<Rightarrow> int \<times> nat \<times> nat" where
  "civil z = civilOfEra ((z + 719468) div 146097) ((z + 719468) mod 146097)"

text \<open>
  \<open>d.toISOString().split('T')[0]\<close> for a valid date with time value \<open>t\<close>: the UTC date
  as \<open>YYYY-MM-DD\<close>, the year written with a sign and six digits outside 0 to 9999.
\<close>

definition isoYear :: "int \<Rightarrow> jsstring" where
  "isoYear y =
    (if 0 \<le> y \<and> y \<le> 9999 then padDigits 4 (nat y)
     else (if y < 0 then 45 else 43) # padDigits 6 (nat \<bar>y\<bar>))"

definition isoDate :: "int \<Rightarrow> jsstring" where
  "isoDate t =
    (case civil (t div msPerDay) of
       (y, m, d) \<Rightarrow> isoYear y @ [45] @ padDigits 2 m @ [45] @ padDigits 2 d)"

section \<open>Release identifiers (utils.js)\<close>

text \<open>
  \<open>title.toLowerCase().replace(/[^a-z0-9]/g, '-')\<close>, code unit by code unit. Lower-casing
  maps \<open>A\<close> to \<open>Z\<close> onto \<open>a\<close> to \<open>z\<close>; of the code units outside ASCII only U+212A (Kelvin
  sign, to \<open>k\<close>) and U+0130 (to \<open>i\<close> followed by U+0307) reach \<open>[a-z0-9]\<close>; every other
  code unit is lower-cased to code units outside \<open>[a-z0-9]\<close>, one for one, and replaced
  by a hyphen.
\<close>

definition cleanUnit :: "nat \<Rightarrow> jsstring" where
  "cleanUnit c =
    (if 65 \<le> c \<and> c \<le> 90 then [c + 32]
     else if (97 \<le> c \<and> c \<le> 122) \<or> (48 \<le> c \<and> c \<le> 57) then [c]
     else if c = 8490 then [107]
     else if c = 304 then [105, 45]
     else [45])"

definition cleanTitle :: "jsstring \<Rightarrow> jsstring" where
  "cleanTitle title = concat (map cleanUnit title)"

text \<open>
  \<open>generateReleaseId(title, date)\<close>. Constructing a \<open>Date\<close> from a string does not throw,
  so the \<open>catch\<close> branch of the source is the same fallback as the NaN branch.
\<close>

definition generateReleaseId :: "date_parser \<Rightarrow> int \<Rightarrow> jsstring \<Rightarrow> jsstring \<Rightarrow> jsstring" where
  "generateReleaseId P now title date =
    (let cleaned = cleanTitle title;
         dateStr = (case P date of
                      None \<Rightarrow> isoDate now
                    | Some t \<Rightarrow> isoDate t)
     in substring0 100 (dateStr @ [45] @ cleaned))"

text \<open>
  A parser given by a finite table of texts and their time values, every other text being
  an invalid date. The table below holds ISO dates, which every engine reads as UTC
  midnight of that day.
\<close>

definition tableParser :: "(jsstring \<times> int) list \<Rightarrow> date_parser" where
  "tableParser tab = map_of tab"

definition isoTable :: "(jsstring \<times> int) list" where
  "isoTable =
    [(str ''2025-01-01'', 1735689600000),
     (str ''2025-01-02'', 1735776000000),
     (str ''2025-01-05'', 1736035200000),
     (str ''2025-06-26'', 1750896000000),
     (str ''2025-06-27'', 1750982400000)]"

section \<open>Cleaning of HTML content (utils.js, cleanHtmlContent)\<close>

text \<open>
  \<open>html.replace(/\s+/g, ' ')\<close>: every maximal run of white space becomes one space.
\<close>

function collapseSpaces :: "jsstring \<Rightarrow> jsstring" where
  "collapseSpaces [] = []"
| "collapseSpaces (c # cs) =
     (if isSpace c then 32 # collapseSpaces (dropWhile isSpace cs)
      else c # collapseSpaces cs)"
  by pat_completeness auto
termination
proof (relation "measure length")
  fix c :: nat and cs :: jsstring
  show "(dropWhile isSpace cs, c # cs) \<in> measure length"
    using length_dropWhile_le [of isSpace cs] by simp
qed simp_all

text \<open>
  \<open>.replace(/>\s+</g, '><')\<close>: scanning from the left, a \<open>>\<close> followed by one or more
  white-space characters and then a \<open><\<close> is replaced by \<open>><\<close>, and the scan goes on
  after that \<open><\<close>. \<open>gapAhead cs\<close> says that \<open>cs\<close> starts with white space whose run ends
  in front of a \<open><\<close>.
\<close>

definition gapAhead :: "jsstring \<Rightarrow> bool" where
  "gapAhead cs =
    (case cs of
       [] \<Rightarrow> False
     | c # _ \<Rightarrow> isSpace c \<and> (case dropWhile isSpace cs of [] \<Rightarrow> False | d # _ \<Rightarrow> d = 60))"

function closeGaps :: "jsstring \<Rightarrow> jsstring" where
  "closeGaps [] = []"
| "closeGaps (c # cs) =
     (if c = 62 \<and> gapAhead cs then 62 # 60 # closeGaps (tl (dropWhile isSpace cs))
      else c # closeGaps cs)"
  by pat_completeness auto
termination
proof (relation "measure length")
  fix c :: nat and cs :: jsstring
  have "length (tl (dropWhile isSpace cs)) \<le> length cs"
    using length_dropWhile_le [of isSpace cs] by simp
  then show "(tl (dropWhile isSpace cs), c # cs) \<in> measure length" by simp
qed simp_all

definition cleanHtmlContent :: "jsstring \<Rightarrow> jsstring" where
  "cleanHtmlContent html = trim (closeGaps (collapseSpaces html))"

text \<open>
  Two predicates on cleaned text: all white space is single spaces, with no two in a
  row; and no \<open>>\<close> is followed by white space and then \<open><\<close>.
\<close>

fun singleSpaced :: "jsstring \<Rightarrow> bool" where
  "singleSpaced [] = True"
| "singleSpaced [c] = (if isSpace c then c = 32 else True)"
| "singleSpaced (c # d # cs) = ((if isSpace c then c = 32 \<and> \<not> isSpace d else True) \<and> singleSpaced (d # cs))"

fun gapFree :: "jsstring \<Rightarrow> bool" where
  "gapFree [] = True"
| "gapFree (c # cs) = (\<not> (c = 62 \<and> gapAhead cs) \<and> gapFree cs)"

section \<open>The listing page (scraper.js, fetchPressReleaseList)\<close>

text \<open>
  A JavaScript value used as a condition: \<open>undefined\<close> (\<open>None\<close>) and the empty string
  are falsy. \<open>a || b\<close> is \<open>a\<close> when \<open>a\<close> is truthy and \<open>b\<close> otherwise.
\<close>

definition truthy :: "jsstring option \<Rightarrow> bool" where
  "truthy v = (case v of None \<Rightarrow> False | Some s \<Rightarrow> s \<noteq> [])"

definition jsOr :: "jsstring option \<Rightarrow> jsstring option \<Rightarrow> jsstring option" where
  "jsOr a b = (if truthy a then a else b)"

text \<open>
  The page is read through cheerio queries only, so the markup is modelled by what those
  queries return. A \<open>title_hit\<close> is the element \<open>$el.find(titleSel).first()\<close> of a row, when
  there is one: its text, its \<open>href\<close> and \<open>data-node-nid\<close> attributes and those of the first
  \<open>a\<close> inside it. A \<open>row\<close> is one element matched by a row selector: whether it contains a
  \<open>th\<close>, the hit (or none) of each title selector in the order of \<open>titleSelectors\<close>, the
  \<open>href\<close> of its first \<open>a\<close>, and the text of the first element (or none) of each date
  selector in the order of \<open>dateSelectors\<close>. The markup maps a row selector to the rows it
  matches, in document order.
\<close>

record title_hit =
  hitText :: jsstring
  hitHref :: "jsstring option"
  hitInnerHref :: "jsstring option"
  hitNid :: "jsstring option"
  hitInnerNid :: "jsstring option"

record row =
  hasTh :: bool
  titleHits :: "title_hit option list"
  firstLinkHref :: "jsstring option"
  dateHits :: "jsstring option list"

type_synonym markup = "string \<Rightarrow> row list"

definition selectors :: "string list" where
  \<open>selectors = [''tr'', ''tbody tr'', ''.table-row'', ''.list-item'', ''.press-release-item'',
     ''[data-testid="table-row"]'', ''.row'', ''tr[role="row"]'']\<close>

text \<open>A release as the list parser pushes it; \<open>ident\<close> is its field \<open>id\<close>.\<close>

record release =
  title :: jsstring
  dateText :: jsstring
  url :: jsstring
  nodeId :: "jsstring option"
  ident :: jsstring
  rawDate :: jsstring

text \<open>
  The loop over \<open>titleSelectors\<close>: the first hit with a non-blank text gives the title,
  the link and the node id. With a node id the link is the \<open>pd_press\<close> URL of the node.
  The result is (title, link, node id); without a hit all three stay empty strings.
\<close>

fun findTitle :: "title_hit option list \<Rightarrow> jsstring option \<Rightarrow> jsstring \<times> jsstring option \<times> jsstring" where
  "findTitle [] firstA = ([], Some [], [])"
| "findTitle (None # hs) firstA = findTitle hs firstA"
| "findTitle (Some h # hs) firstA =
     (if trim (hitText h) \<noteq> [] then
        (case jsOr (hitNid h) (hitInnerNid h) of
           Some nid \<Rightarrow>
             (if nid \<noteq> [] then
                (trim (hitText h), Some (str ''https://live.euronext.com/en/pd_press/'' @ nid), nid)
              else
                (trim (hitText h), jsOr (hitHref h) (jsOr (hitInnerHref h) firstA), []))
         | None \<Rightarrow>
             (trim (hitText h), jsOr (hitHref h) (jsOr (hitInnerHref h) firstA), []))
      else findTitle hs firstA)"

text \<open>The loop over \<open>dateSelectors\<close>: the first non-blank text, trimmed, or the empty string.\<close>

fun findDate :: "jsstring option list \<Rightarrow> jsstring" where
  "findDate [] = []"
| "findDate (None # ds) = findDate ds"
| "findDate (Some t # ds) = (if trim t \<noteq> [] then trim t else findDate ds)"

text \<open>\<open>link.startsWith('http')\<close>.\<close>

definition startsWithHttp :: "jsstring \<Rightarrow> bool" where
  "startsWithHttp s = (take 4 s = str ''http'')"

text \<open>
  \<open>link ? (link.startsWith('http') ? link : baseUrl + link) : '#'\<close>, with the configured
  \<open>baseUrl\<close>.
\<close>

definition releaseUrl :: "jsstring \<Rightarrow> jsstring option \<Rightarrow> jsstring" where
  "releaseUrl baseUrl link =
    (case link of
       None \<Rightarrow> str ''#''
     | Some l \<Rightarrow> (if l = [] then str ''#'' else if startsWithHttp l then l else baseUrl @ l))"

text \<open>
  The body of the \<open>each\<close> callback for one row: \<open>None\<close> when the row is skipped (a header
  row, or a title that is missing or not longer than 10 code units), otherwise the
  release that is pushed.
\<close>

definition parseRow :: "jsstring \<Rightarrow> date_parser \<Rightarrow> int \<Rightarrow> row \<Rightarrow> release option" where
  "parseRow baseUrl P now el =
    (if hasTh el then None
     else
       (case findTitle (titleHits el) (firstLinkHref el) of
          (ttl, link, nid) \<Rightarrow>
            (let dt = findDate (dateHits el) in
             if ttl \<noteq> [] \<and> length ttl > 10 then
               Some \<lparr> title = ttl,
                      dateText = (if dt \<noteq> [] then dt else str ''Unknown date''),
                      url = releaseUrl baseUrl link,
                      nodeId = (if nid \<noteq> [] then Some nid else None),
                      ident = generateReleaseId P now ttl (if dt \<noteq> [] then dt else str ''unknown''),
                      rawDate = dt \<rparr>
             else None)))"

text \<open>All the releases that one row selector yields on the page.\<close>

definition parseSelector :: "jsstring \<Rightarrow> date_parser \<Rightarrow> int \<Rightarrow> markup \<Rightarrow> string \<Rightarrow> release list" where
  "parseSelector baseUrl P now M sel = List.map_filter (parseRow baseUrl P now) (M sel)"

text \<open>
  The loop over the row selectors, with the flag \<open>foundReleases\<close> and the array
  \<open>releases\<close> as loop state. The third component records the selectors that were
  evaluated, in order; the source keeps no such list, it is there to state which queries
  ran.
\<close>

fun parseLoop ::
  "jsstring \<Rightarrow> date_parser \<Rightarrow> int \<Rightarrow> markup \<Rightarrow> string list \<Rightarrow> bool \<Rightarrow> release list \<Rightarrow> string list
     \<Rightarrow> release list \<times> string list" where
  "parseLoop baseUrl P now M [] foundReleases releases evaluated = (releases, evaluated)"
| "parseLoop baseUrl P now M (sel # sels) foundReleases releases evaluated =
     (if foundReleases then (releases, evaluated)
      else
        parseLoop baseUrl P now M sels
          (parseSelector baseUrl P now M sel \<noteq> [])
          (releases @ parseSelector baseUrl P now M sel)
          (evaluated @ [sel]))"

definition parseList ::
  "jsstring \<Rightarrow> date_parser \<Rightarrow> int \<Rightarrow> markup \<Rightarrow> string list \<Rightarrow> release list \<times> string list" where
  "parseList baseUrl P now M sels = parseLoop baseUrl P now M sels False [] []"

subsection \<open>The cutoff filter\<close>

text \<open>\<open>release.rawDate || release.dateText\<close>.\<close>

definition dateKey :: "release \<Rightarrow> jsstring" where
  "dateKey r = (if rawDate r \<noteq> [] then rawDate r else dateText r)"

text \<open>
  The date text that the filter parses: with a line feed in it, the part before the first
  line feed, trimmed.
\<close>

definition normalizeDateText :: "jsstring \<Rightarrow> jsstring" where
  "normalizeDateText s = (if 10 \<in> set s then trim (takeWhile (\<lambda>c. c \<noteq> 10) s) else s)"

text \<open>
  The filter callback, for the time value \<open>cutoff\<close> of the cutoff date: a release is kept
  when its date text parses to a time value not before the cutoff.
\<close>

definition isRecent :: "date_parser \<Rightarrow> int \<Rightarrow> release \<Rightarrow> bool" where
  "isRecent P cutoff r =
    (case P (normalizeDateText (dateKey r)) of
       Some t \<Rightarrow> cutoff \<le> t
     | None \<Rightarrow> False)"

text \<open>\<open>onlyAfterDate || "2025-06-27"\<close>, parsed.\<close>

definition cutoffDate :: "date_parser \<Rightarrow> jsstring option \<Rightarrow> int option" where
  "cutoffDate P onlyAfterDate =
    P (case jsOr onlyAfterDate (Some (str ''2025-06-27'')) of Some s \<Rightarrow> s | None \<Rightarrow> [])"

subsection \<open>The sorter\<close>

text \<open>
  The comparator handed to \<open>sort\<close>. \<open>lc x y\<close> stands for \<open>x.localeCompare(y)\<close>, which
  depends on the locale of the engine and is a parameter.
\<close>

definition compareReleases ::
  "date_parser \<Rightarrow> (jsstring \<Rightarrow> jsstring \<Rightarrow> int) \<Rightarrow> release \<Rightarrow> release \<Rightarrow> int" where
  "compareReleases P lc a b =
    (case (P (dateKey a), P (dateKey b)) of
       (Some ta, Some tb) \<Rightarrow> tb - ta
     | _ \<Rightarrow> lc (dateKey b) (dateKey a))"

text \<open>
  \<open>Array.prototype.sort\<close> with a comparator is a stable sort: \<open>x\<close> comes before \<open>y\<close> when
  \<open>cmp x y < 0\<close>, and elements that compare as equal keep their order. It is modelled by
  a stable insertion sort. (For a comparator that is not a consistent ordering the
  language leaves the result to the engine.)
\<close>

fun insertBy :: "('a \<Rightarrow> 'a \<Rightarrow> int) \<Rightarrow> 'a \<Rightarrow> 'a list \<Rightarrow> 'a list" where
  "insertBy cmp x [] = [x]"
| "insertBy cmp x (y # ys) = (if cmp x y \<le> 0 then x # y # ys else y # insertBy cmp x ys)"

definition sortBy :: "('a \<Rightarrow> 'a \<Rightarrow> int) \<Rightarrow> 'a list \<Rightarrow> 'a list" where
  "sortBy cmp xs = foldr (insertBy cmp) xs []"

text \<open>A lexical comparison of code units, one possible \<open>localeCompare\<close>.\<close>

fun lexCompare :: "jsstring \<Rightarrow> jsstring \<Rightarrow> int" where
  "lexCompare [] [] = 0"
| "lexCompare [] (y # ys) = - 1"
| "lexCompare (x # xs) [] = 1"
| "lexCompare (x # xs) (y # ys) = (if x < y then - 1 else if y < x then 1 else lexCompare xs ys)"

text \<open>
  One attempt of \<open>fetchPressReleaseList\<close> on a page that was received: parse, filter,
  sort. With an invalid cutoff date the attempt throws (\<open>toISOString\<close> of an invalid date,
  line 115).
\<close>

record scraper_config =
  baseUrl :: jsstring
  onlyAfterDate :: "jsstring option"
  euronextRetryAttempts :: "int option"

definition listFromMarkup ::
  "scraper_config \<Rightarrow> date_parser \<Rightarrow> (jsstring \<Rightarrow> jsstring \<Rightarrow> int) \<Rightarrow> int \<Rightarrow> markup
     \<Rightarrow> jsstring + release list" where
  "listFromMarkup cfg P lc now M =
    (case cutoffDate P (onlyAfterDate cfg) of
       None \<Rightarrow> Inl (str ''Invalid time value'')
     | Some cutoff \<Rightarrow>
         Inr (sortBy (compareReleases P lc)
               (filter (isRecent P cutoff) (fst (parseList (baseUrl cfg) P now M selectors)))))"

text \<open>The time value of a release's raw date text (0 when it does not parse).\<close>

definition timeOf :: "date_parser \<Rightarrow> release \<Rightarrow> int" where
  "timeOf P r = (case P (dateKey r) of Some t \<Rightarrow> t | None \<Rightarrow> 0)"

text \<open>
  What is asked of a locale comparison on the texts \<open>ks\<close> for it to order them: of two
  texts one is at most the other, and the comparison is transitive.
\<close>

definition totalPreorderOn :: "(jsstring \<Rightarrow> jsstring \<Rightarrow> int) \<Rightarrow> jsstring list \<Rightarrow> bool" where
  "totalPreorderOn lc ks =
    ((\<forall>x \<in> set ks. \<forall>y \<in> set ks. 0 < lc x y \<longrightarrow> lc y x \<le> 0) \<and>
     (\<forall>x \<in> set ks. \<forall>y \<in> set ks. \<forall>z \<in> set ks. lc x y \<le> 0 \<and> lc y z \<le> 0 \<longrightarrow> lc x z \<le> 0))"

section \<open>Retrying (utils.js, retry)\<close>

text \<open>
  \<open>retry(fn, attempts = 3, delay)\<close>. The function \<open>fn\<close> acts on a state \<open>'s\<close> (the outside
  world it talks to) and either throws a message (\<open>Inl\<close>) or returns a value (\<open>Inr\<close>).
  The loop counter \<open>i\<close> starts at 0. When the loop ends without an attempt, which happens
  for \<open>attempts \<le> 0\<close>, the source returns \<open>undefined\<close>: the result \<open>Inr None\<close>. The
  delay between attempts has no effect on the result and is left out.
\<close>

function retry ::
  "('s \<Rightarrow> (jsstring + 'a) \<times> 's) \<Rightarrow> int \<Rightarrow> nat \<Rightarrow> 's \<Rightarrow> (jsstring + 'a option) \<times> 's" where
  "retry fn attempts i s =
    (if int i < attempts then
       (case fn s of
          (Inr v, s') \<Rightarrow> (Inr (Some v), s')
        | (Inl e, s') \<Rightarrow>
            (if int i = attempts - 1 then (Inl e, s') else retry fn attempts (Suc i) s'))
     else (Inr None, s))"
  by pat_completeness auto
termination
  by (relation "measure (\<lambda>(fn, attempts, i, s). nat (attempts - int i))") auto

declare retry.simps [simp del]

text \<open>The default value of the parameter \<open>attempts\<close> when the configuration has none.\<close>

definition attemptsOf :: "int option \<Rightarrow> int" where
  "attemptsOf a = (case a of None \<Rightarrow> 3 | Some n \<Rightarrow> n)"

text \<open>
  \<open>fetchPressReleaseList\<close>: the page is requested and handled inside \<open>retry\<close>. The web
  is a function from the number of the request to its outcome, an error message or the
  markup received; the state of \<open>retry\<close> is the number of requests made so far.
\<close>

definition fetchOnce ::
  "scraper_config \<Rightarrow> date_parser \<Rightarrow> (jsstring \<Rightarrow> jsstring \<Rightarrow> int) \<Rightarrow> int \<Rightarrow> (nat \<Rightarrow> jsstring + markup)
     \<Rightarrow> nat \<Rightarrow> (jsstring + release list) \<times> nat" where
  "fetchOnce cfg P lc now web n =
    (case web n of
       Inl e \<Rightarrow> (Inl e, Suc n)
     | Inr M \<Rightarrow> (listFromMarkup cfg P lc now M, Suc n))"

definition fetchPressReleaseList ::
  "scraper_config \<Rightarrow> date_parser \<Rightarrow> (jsstring \<Rightarrow> jsstring \<Rightarrow> int) \<Rightarrow> int \<Rightarrow> (nat \<Rightarrow> jsstring + markup)
     \<Rightarrow> jsstring + release list option" where
  "fetchPressReleaseList cfg P lc now web =
     fst (retry (fetchOnce cfg P lc now web) (attemptsOf (euronextRetryAttempts cfg)) 0 0)"

section \<open>Content extraction (scraper.js, fetchPressReleaseContent)\<close>

text \<open>
  A release with its content: the object \<open>{...release, content, publishDate, scrapedAt}\<close>.
  \<open>scrapedAt\<close> holds the time value of the clock, which the source stores as ISO text.
\<close>

record full_release = release +
  content :: jsstring
  publishDate :: jsstring
  scrapedAt :: int

definition withContent :: "release \<Rightarrow> jsstring \<Rightarrow> jsstring \<Rightarrow> int \<Rightarrow> full_release" where
  "withContent r c p s =
    \<lparr> title = title r, dateText = dateText r, url = url r, nodeId = nodeId r,
      ident = ident r, rawDate = rawDate r, content = c, publishDate = p, scrapedAt = s \<rparr>"

text \<open>The fallback object, which the source builds at three places (code unit 34 is the double quote).\<close>

definition fallbackRelease :: "release \<Rightarrow> int \<Rightarrow> full_release" where
  "fallbackRelease r now =
    withContent r
      (str ''<h2>'' @ title r @ str ''</h2><p>Press release content from '' @ dateText r @
       str ''. <a href='' @ [34] @ url r @ [34] @ str ''>Read full article</a></p>'')
      (dateText r) now"

text \<open>
  The headless browser of one call: not launched, open, or closed. \<open>browser.close()\<close>
  closes it and is taken to succeed.
\<close>

datatype browser = NotLaunched | Open | Closed

definition closeBrowser :: "browser \<Rightarrow> browser" where
  "closeBrowser b = Closed"

text \<open>
  What the browser does in one call, step by step: whether \<open>puppeteer.launch\<close>,
  \<open>newPage\<close>, \<open>setUserAgent\<close>, \<open>setViewport\<close> and \<open>goto\<close> succeed, whether the two
  \<open>waitForSelector\<close> calls and the \<open>click\<close> succeed, and what \<open>page.evaluate\<close> gives:
  \<open>None\<close> when it throws, \<open>Some None\<close> when the callback returns \<open>null\<close>, and
  \<open>Some (Some c)\<close> when it returns the content \<open>c\<close>. A step that does not succeed throws
  (a timeout, a navigation error, a crashed page).
\<close>

record page_script =
  launchOk :: bool
  newPageOk :: bool
  setUserAgentOk :: bool
  setViewportOk :: bool
  gotoOk :: bool
  waitLinkOk :: bool
  clickOk :: bool
  waitModalOk :: bool
  evaluateResult :: "jsstring option option"

text \<open>
  \<open>fetchPressReleaseContent(release)\<close> of scraper.js, with the state of the browser when
  the call returns. The branches follow the source: no node id (lines 174 to 182); a throw
  between \<open>launch\<close> and the inner \<open>try\<close> goes to the outer \<open>catch\<close> (lines 331 to 340), which
  returns the fallback and does not close the browser; a throw inside the inner \<open>try\<close> is
  caught at line 317 and followed by \<open>browser.close()\<close> at line 321; after \<open>page.evaluate\<close>
  the browser is closed at line 303, and once more at line 321 when there is no content.
\<close>

definition fetchPressReleaseContent :: "page_script \<Rightarrow> int \<Rightarrow> release \<Rightarrow> full_release \<times> browser" where
  "fetchPressReleaseContent sc now r =
    (if \<not> truthy (nodeId r) then (fallbackRelease r now, NotLaunched)
     else if \<not> launchOk sc then (fallbackRelease r now, NotLaunched)
     else if \<not> (newPageOk sc \<and> setUserAgentOk sc \<and> setViewportOk sc \<and> gotoOk sc) then
       (fallbackRelease r now, Open)
     else if \<not> (waitLinkOk sc \<and> clickOk sc \<and> waitModalOk sc) then
       (fallbackRelease r now, closeBrowser Open)
     else
       (case evaluateResult sc of
          None \<Rightarrow> (fallbackRelease r now, closeBrowser Open)
        | Some None \<Rightarrow> (fallbackRelease r now, closeBrowser (closeBrowser Open))
        | Some (Some c) \<Rightarrow>
            (if c \<noteq> [] then (withContent r c (dateText r) now, closeBrowser Open)
             else (fallbackRelease r now, closeBrowser (closeBrowser Open)))))"

text \<open>
  The earlier version of the same method (direct navigation to the page of the release,
  one attempt of its \<open>retry\<close>): the browser is launched outside a \<open>try\<close> whose \<open>finally\<close>
  closes it. The page gives a title, a content and a date; too little content throws.
\<close>

record page_content =
  pageTitle :: jsstring
  pageContent :: jsstring
  pageDate :: jsstring

record direct_script =
  dLaunchOk :: bool
  dNewPageOk :: bool
  dSetUserAgentOk :: bool
  dGotoOk :: bool
  dWaitOk :: bool
  dEvaluated :: "page_content option"

definition fetchDirectAttempt ::
  "direct_script \<Rightarrow> int \<Rightarrow> release \<Rightarrow> (jsstring + full_release) \<times> browser" where
  "fetchDirectAttempt sc now r =
    (if \<not> dLaunchOk sc then (Inl (str ''Failed to launch the browser process''), NotLaunched)
     else if \<not> (dNewPageOk sc \<and> dSetUserAgentOk sc \<and> dGotoOk sc \<and> dWaitOk sc) then
       (Inl (str ''Navigation failed''), closeBrowser Open)
     else
       (case dEvaluated sc of
          None \<Rightarrow> (Inl (str ''Evaluation failed''), closeBrowser Open)
        | Some c \<Rightarrow>
            (if pageContent c = [] \<or> length (trim (pageContent c)) < 50 then
               (Inl (str ''Could not extract substantial content from press release''),
                closeBrowser Open)
             else
               (Inr ((withContent r (cleanHtmlContent (pageContent c))
                        (if pageDate c \<noteq> [] then pageDate c else dateText r) now)
                      \<lparr> title := (if pageTitle c \<noteq> [] then pageTitle c else title r) \<rparr>),
                closeBrowser Open))))"

section \<open>The newest releases (scraper.js, getLatestReleases)\<close>

text \<open>
  \<open>getLatestReleases(limit)\<close>: the list is fetched (an error is thrown on), cut to its first
  \<open>limit\<close> entries by \<open>slice(0, limit)\<close>, and the content of each entry is extracted in
  order. When \<open>fetchPressReleaseList\<close> gave \<open>undefined\<close>, \<open>slice\<close> throws a TypeError.
  \<open>scripts r\<close> is what the browser does for the release \<open>r\<close>.
\<close>

definition getLatestReleases ::
  "(release \<Rightarrow> page_script) \<Rightarrow> int \<Rightarrow> nat \<Rightarrow> jsstring + release list option
     \<Rightarrow> jsstring + full_release list" where
  "getLatestReleases scripts now limit fetched =
    (case fetched of
       Inl e \<Rightarrow> Inl e
     | Inr None \<Rightarrow> Inl (str ''Cannot read properties of undefined (reading slice)'')
     | Inr (Some releases) \<Rightarrow>
         Inr (map (\<lambda>r. fst (fetchPressReleaseContent (scripts r) now r)) (take limit releases)))"

section \<open>The CMS client (webflow.js)\<close>

subsection \<open>Slugs\<close>

text \<open>
  \<open>generateSlug(title)\<close>. The regular expressions of the source are written with doubled
  backslashes, so the first one, \<open>/[^a-z0-9\\s-]/g\<close>, removes every code unit that is not a
  lower-case letter, a digit, a backslash or a hyphen (white space is removed, not kept),
  and the second one, \<open>/\\s+/g\<close>, replaces a backslash followed by one or more \<open>s\<close> by a
  hyphen. \<open>slugUnit\<close> is \<open>toLowerCase\<close> followed by the first replacement, code unit by code
  unit (see \<open>cleanUnit\<close> for the code units outside ASCII; the combining dot that
  U+0130 leaves is removed).
\<close>

definition slugUnit :: "nat \<Rightarrow> jsstring" where
  "slugUnit c =
    (if 65 \<le> c \<and> c \<le> 90 then [c + 32]
     else if (97 \<le> c \<and> c \<le> 122) \<or> (48 \<le> c \<and> c \<le> 57) \<or> c = 92 \<or> c = 45 then [c]
     else if c = 8490 then [107]
     else if c = 304 then [105]
     else [])"

function replaceBackslashS :: "jsstring \<Rightarrow> jsstring" where
  "replaceBackslashS [] = []"
| "replaceBackslashS (c # cs) =
     (if c = 92 \<and> (case cs of [] \<Rightarrow> False | d # _ \<Rightarrow> d = 115) then
        45 # replaceBackslashS (dropWhile (\<lambda>d. d = 115) cs)
      else c # replaceBackslashS cs)"
  by pat_completeness auto
termination
proof (relation "measure length")
  fix c :: nat and cs :: jsstring
  show "(dropWhile (\<lambda>d. d = 115) cs, c # cs) \<in> measure length"
    using length_dropWhile_le [of "\<lambda>d. d = 115" cs] by simp
qed simp_all

text \<open>\<open>.replace(/-+/g, '-')\<close>: every run of hyphens becomes one hyphen.\<close>

function collapseHyphens :: "jsstring \<Rightarrow> jsstring" where
  "collapseHyphens [] = []"
| "collapseHyphens (c # cs) =
     (if c = 45 then 45 # collapseHyphens (dropWhile (\<lambda>d. d = 45) cs)
      else c # collapseHyphens cs)"
  by pat_completeness auto
termination
proof (relation "measure length")
  fix c :: nat and cs :: jsstring
  show "(dropWhile (\<lambda>d. d = 45) cs, c # cs) \<in> measure length"
    using length_dropWhile_le [of "\<lambda>d. d = 45" cs] by simp
qed simp_all

text \<open>\<open>trim\<close> ignores its argument \<open>'-'\<close> and removes white space.\<close>

definition generateSlug :: "jsstring \<Rightarrow> jsstring" where
  "generateSlug ttl =
     substring0 100 (trim (collapseHyphens (replaceBackslashS (concat (map slugUnit ttl)))))"

text \<open>
  \<open>generateUniqueSlug(title, publishDate)\<close>. The date part is made of the local year, month
  and day of the parsed publish date; \<open>tz t\<close> is the offset of local time from UTC at the
  time value \<open>t\<close>, in milliseconds. For a publish date that does not parse the date part
  is empty (constructing the \<open>Date\<close> does not throw, so the \<open>catch\<close> is not reached).
\<close>

definition datePart :: "date_parser \<Rightarrow> (int \<Rightarrow> int) \<Rightarrow> jsstring \<Rightarrow> jsstring" where
  "datePart P tz pd =
    (case P pd of
       None \<Rightarrow> []
     | Some t \<Rightarrow>
         (case civil ((t + tz t) div msPerDay) of
            (y, m, d) \<Rightarrow>
              str ''-'' @ showInt y @ str ''-'' @ padStart2 (decimal m) @ str ''-'' @
              padStart2 (decimal d)))"

definition generateUniqueSlug :: "date_parser \<Rightarrow> (int \<Rightarrow> int) \<Rightarrow> jsstring \<Rightarrow> jsstring \<Rightarrow> jsstring" where
  "generateUniqueSlug P tz ttl pd = substring0 100 (generateSlug ttl @ datePart P tz pd)"

subsection \<open>The remote collection\<close>

text \<open>
  The CMS is an outside system. It is modelled as the list of the items of the collection
  together with the outcome of the requests to come: \<open>faults\<close> holds, for each coming
  request in order, \<open>None\<close> when it succeeds and \<open>Some e\<close> when it fails with the message
  \<open>e\<close>; requests beyond the list succeed. A successful creation stores the posted item as
  it is, under a fresh id, and a listing returns all items. Of the posted fields those
  that no modelled function reads back (the formatted date, the link) are left out.
\<close>

record cms_item =
  itemId :: nat
  isDraft :: bool
  slug :: jsstring
  name :: jsstring
  bodyHtml :: jsstring
  published :: bool

record cms =
  items :: "cms_item list"
  faults :: "jsstring option list"

definition request :: "cms \<Rightarrow> jsstring option \<times> cms" where
  "request w =
    (case faults w of
       [] \<Rightarrow> (None, w)
     | f # fs \<Rightarrow> (f, w \<lparr> faults := fs \<rparr>))"

record webflow_config =
  publishImmediately :: bool
  webflowRetryAttempts :: "int option"

subsection \<open>publishItem, createItem, itemExists\<close>

definition publishAttempt :: "nat \<Rightarrow> cms \<Rightarrow> (jsstring + unit) \<times> cms" where
  "publishAttempt i w =
    (case request w of
       (Some e, w1) \<Rightarrow> (Inl e, w1)
     | (None, w1) \<Rightarrow>
         (Inr (),
          w1 \<lparr> items := map (\<lambda>x. if itemId x = i then x \<lparr> published := True \<rparr> else x) (items w1) \<rparr>))"

definition publishItem :: "webflow_config \<Rightarrow> nat \<Rightarrow> cms \<Rightarrow> (jsstring + unit option) \<times> cms" where
  "publishItem cfg i w = retry (publishAttempt i) (attemptsOf (webflowRetryAttempts cfg)) 0 w"

text \<open>
  One attempt of \<open>createItem\<close>: the POST of the item, and the publish call when
  \<open>publishImmediately\<close> is set. The id that the CMS returns is never empty, so the test of
  \<open>createdItem.id\<close> succeeds.
\<close>

definition createAttempt ::
  "webflow_config \<Rightarrow> date_parser \<Rightarrow> (int \<Rightarrow> int) \<Rightarrow> full_release \<Rightarrow> cms \<Rightarrow> (jsstring + cms_item) \<times> cms" where
  "createAttempt cfg P tz r w =
    (case request w of
       (Some e, w1) \<Rightarrow> (Inl e, w1)
     | (None, w1) \<Rightarrow>
         (let createdItem =
                \<lparr> itemId = length (items w1),
                  isDraft = (\<not> publishImmediately cfg),
                  slug = generateUniqueSlug P tz (title r) (publishDate r),
                  name = title r,
                  bodyHtml = content r,
                  published = False \<rparr>;
              w2 = w1 \<lparr> items := items w1 @ [createdItem] \<rparr>
          in if publishImmediately cfg then
               (case publishItem cfg (itemId createdItem) w2 of
                  (Inl e, w3) \<Rightarrow> (Inl e, w3)
                | (Inr _, w3) \<Rightarrow> (Inr createdItem, w3))
             else (Inr createdItem, w2)))"

definition createItem ::
  "webflow_config \<Rightarrow> date_parser \<Rightarrow> (int \<Rightarrow> int) \<Rightarrow> full_release \<Rightarrow> cms
     \<Rightarrow> (jsstring + cms_item option) \<times> cms" where
  "createItem cfg P tz r w =
     retry (createAttempt cfg P tz r) (attemptsOf (webflowRetryAttempts cfg)) 0 w"

text \<open>
  \<open>itemExists(pressRelease)\<close>: the items are listed and searched for the unique slug of the
  release; a failed request is caught and gives \<open>false\<close>.
\<close>

definition itemExists ::
  "date_parser \<Rightarrow> (int \<Rightarrow> int) \<Rightarrow> full_release \<Rightarrow> cms \<Rightarrow> bool \<times> cms" where
  "itemExists P tz r w =
    (case request w of
       (Some e, w1) \<Rightarrow> (False, w1)
     | (None, w1) \<Rightarrow>
         (find (\<lambda>x. slug x = generateUniqueSlug P tz (title r) (publishDate r)) (items w1) \<noteq> None,
          w1))"

subsection \<open>createItems\<close>

record batch_result =
  created :: "(full_release \<times> cms_item option) list"
  skipped :: "full_release list"
  errors :: "(full_release \<times> jsstring) list"

text \<open>
  The loop of \<open>createItems\<close> with \<open>results\<close> and the CMS as loop state. Each release is
  pushed to \<open>skipped\<close> when it exists, to \<open>created\<close> with the item that \<open>createItem\<close>
  returned (none when \<open>retry\<close> returned \<open>undefined\<close>), or to \<open>errors\<close> with the message of
  the exception.
\<close>

fun createItemsLoop ::
  "webflow_config \<Rightarrow> date_parser \<Rightarrow> (int \<Rightarrow> int) \<Rightarrow> full_release list \<Rightarrow> batch_result \<Rightarrow> cms
     \<Rightarrow> batch_result \<times> cms" where
  "createItemsLoop cfg P tz [] results w = (results, w)"
| "createItemsLoop cfg P tz (r # rs) results w =
     (case itemExists P tz r w of
        (True, w1) \<Rightarrow>
          createItemsLoop cfg P tz rs (results \<lparr> skipped := skipped results @ [r] \<rparr>) w1
      | (False, w1) \<Rightarrow>
          (case createItem cfg P tz r w1 of
             (Inr createdItem, w2) \<Rightarrow>
               createItemsLoop cfg P tz rs
                 (results \<lparr> created := created results @ [(r, createdItem)] \<rparr>) w2
           | (Inl e, w2) \<Rightarrow>
               createItemsLoop cfg P tz rs
                 (results \<lparr> errors := errors results @ [(r, e)] \<rparr>) w2))"

definition createItems ::
  "webflow_config \<Rightarrow> date_parser \<Rightarrow> (int \<Rightarrow> int) \<Rightarrow> full_release list \<Rightarrow> cms \<Rightarrow> batch_result \<times> cms" where
  "createItems cfg P tz pressReleases w =
     createItemsLoop cfg P tz pressReleases \<lparr> created = [], skipped = [], errors = [] \<rparr> w"

subsection \<open>The earlier version of the client\<close>

text \<open>
  An earlier version of webflow.js is kept in the repository. Its \<open>createItem\<close> writes
  \<open>generateSlug(title)\<close> as the slug, its \<open>createItems\<close> hands \<open>release.id\<close> to \<open>itemExists\<close>,
  and \<open>itemExists\<close> looks for \<open>generateSlug\<close> of what it is handed. The rest is as above.
\<close>

definition createAttemptEarlier ::
  "webflow_config \<Rightarrow> full_release \<Rightarrow> cms \<Rightarrow> (jsstring + cms_item) \<times> cms" where
  "createAttemptEarlier cfg r w =
    (case request w of
       (Some e, w1) \<Rightarrow> (Inl e, w1)
     | (None, w1) \<Rightarrow>
         (let createdItem =
                \<lparr> itemId = length (items w1),
                  isDraft = (\<not> publishImmediately cfg),
                  slug = generateSlug (title r),
                  name = title r,
                  bodyHtml = content r,
                  published = False \<rparr>;
              w2 = w1 \<lparr> items := items w1 @ [createdItem] \<rparr>
          in if publishImmediately cfg then
               (case publishItem cfg (itemId createdItem) w2 of
                  (Inl e, w3) \<Rightarrow> (Inl e, w3)
                | (Inr _, w3) \<Rightarrow> (Inr createdItem, w3))
             else (Inr createdItem, w2)))"

definition createItemEarlier ::
  "webflow_config \<Rightarrow> full_release \<Rightarrow> cms \<Rightarrow> (jsstring + cms_item option) \<times> cms" where
  "createItemEarlier cfg r w =
     retry (createAttemptEarlier cfg r) (attemptsOf (webflowRetryAttempts cfg)) 0 w"

definition itemExistsEarlier :: "jsstring \<Rightarrow> cms \<Rightarrow> bool \<times> cms" where
  "itemExistsEarlier pressReleaseId w =
    (case request w of
       (Some e, w1) \<Rightarrow> (False, w1)
     | (None, w1) \<Rightarrow>
         (find (\<lambda>x. slug x = generateSlug pressReleaseId) (items w1) \<noteq> None, w1))"

fun createItemsLoopEarlier ::
  "webflow_config \<Rightarrow> full_release list \<Rightarrow> batch_result \<Rightarrow> cms \<Rightarrow> batch_result \<times> cms" where
  "createItemsLoopEarlier cfg [] results w = (results, w)"
| "createItemsLoopEarlier cfg (r # rs) results w =
     (case itemExistsEarlier (ident r) w of
        (True, w1) \<Rightarrow>
          createItemsLoopEarlier cfg rs (results \<lparr> skipped := skipped results @ [r] \<rparr>) w1
      | (False, w1) \<Rightarrow>
          (case createItemEarlier cfg r w1 of
             (Inr createdItem, w2) \<Rightarrow>
               createItemsLoopEarlier cfg rs
                 (results \<lparr> created := created results @ [(r, createdItem)] \<rparr>) w2
           | (Inl e, w2) \<Rightarrow>
               createItemsLoopEarlier cfg rs
                 (results \<lparr> errors := errors results @ [(r, e)] \<rparr>) w2))"

definition createItemsEarlier ::
  "webflow_config \<Rightarrow> full_release list \<Rightarrow> cms \<Rightarrow> batch_result \<times> cms" where
  "createItemsEarlier cfg pressReleases w =
     createItemsLoopEarlier cfg pressReleases \<lparr> created = [], skipped = [], errors = [] \<rparr> w"


section \<open>The run (PressReleaseAutomation.run)\<close>

text \<open>
  The persisted store \<open>data/processed.json\<close>. Time stamps are time values. The fields
  \<open>entryId\<close>, \<open>entryTitle\<close> and \<open>entryUrl\<close> are \<open>id\<close>, \<open>title\<close> and \<open>url\<close> of an entry of
  \<open>processedReleases\<close>; \<open>errorTitle\<close>, \<open>errorMessage\<close> and \<open>errorTimestamp\<close> are \<open>title\<close>,
  \<open>error\<close> and \<open>timestamp\<close> of an entry of \<open>stats.errors\<close>, which is the field
  \<open>statsErrors\<close>; \<open>errorTitle\<close> is absent in the entry of a fatal failure and \<open>fatal\<close> is
  set only there.
\<close>

record processed_entry =
  entryId :: jsstring
  entryTitle :: jsstring
  entryUrl :: jsstring
  webflowId :: nat
  processedAt :: int

record error_entry =
  errorTitle :: "jsstring option"
  errorMessage :: jsstring
  errorTimestamp :: int
  fatal :: bool

record run_stats =
  totalProcessed :: nat
  lastRunTime :: "int option"
  statsErrors :: "error_entry list"

record processed_data =
  lastProcessed :: "int option"
  processedReleases :: "processed_entry list"
  stats :: run_stats

text \<open>
  The file system: the content of the store file when it exists and parses, and whether
  writing it succeeds. \<open>loadProcessedData\<close> falls back to the empty store,
  \<open>saveProcessedData\<close> swallows a failed write.
\<close>

record disk =
  storeFile :: "processed_data option"
  writable :: bool

definition emptyData :: processed_data where
  "emptyData =
    \<lparr> lastProcessed = None, processedReleases = [],
      stats = \<lparr> totalProcessed = 0, lastRunTime = None, statsErrors = [] \<rparr> \<rparr>"

definition loadProcessedData :: "disk \<Rightarrow> processed_data" where
  "loadProcessedData d = (case storeFile d of Some pd \<Rightarrow> pd | None \<Rightarrow> emptyData)"

definition saveProcessedData :: "disk \<Rightarrow> processed_data \<Rightarrow> disk" where
  "saveProcessedData d pd = (if writable d then d \<lparr> storeFile := Some pd \<rparr> else d)"

definition filterNewReleases :: "full_release list \<Rightarrow> processed_data \<Rightarrow> full_release list" where
  "filterNewReleases releases processedData =
     filter (\<lambda>r. ident r \<notin> set (map entryId (processedReleases processedData))) releases"

text \<open>\<open>xs.slice(-n)\<close>: the last \<open>n\<close> elements.\<close>

definition lastN :: "nat \<Rightarrow> 'a list \<Rightarrow> 'a list" where
  "lastN n xs = drop (length xs - n) xs"

text \<open>
  The entries made of \<open>results.created\<close>. Reading \<open>item.webflowItem.id\<close> of an entry whose
  item is \<open>undefined\<close> throws a TypeError.
\<close>

fun processedEntries :: "int \<Rightarrow> (full_release \<times> cms_item option) list \<Rightarrow> jsstring + processed_entry list" where
  "processedEntries now [] = Inr []"
| "processedEntries now ((r, None) # cs) =
     Inl (str ''Cannot read properties of undefined (reading id)'')"
| "processedEntries now ((r, Some x) # cs) =
     (case processedEntries now cs of
        Inl e \<Rightarrow> Inl e
      | Inr es \<Rightarrow>
          Inr (\<lparr> entryId = ident r, entryTitle = title r, entryUrl = url r,
                 webflowId = itemId x, processedAt = now \<rparr> # es))"

text \<open>\<open>updatedProcessedData\<close> (lines 127 to 152).\<close>

definition updatedProcessedData :: "processed_data \<Rightarrow> batch_result \<Rightarrow> int \<Rightarrow> jsstring + processed_data" where
  "updatedProcessedData processedData results now =
    (case processedEntries now (created results) of
       Inl e \<Rightarrow> Inl e
     | Inr es \<Rightarrow>
         Inr \<lparr> lastProcessed = Some now,
               processedReleases = processedReleases processedData @ es,
               stats =
                 \<lparr> totalProcessed = totalProcessed (stats processedData) + length (created results),
                   lastRunTime = Some now,
                   statsErrors =
                     lastN 10
                       (lastN 10 (statsErrors (stats processedData)) @
                        map (\<lambda>(r, e). \<lparr> errorTitle = Some (title r), errorMessage = e,
                                         errorTimestamp = now, fatal = False \<rparr>)
                          (errors results)) \<rparr> \<rparr>)"

text \<open>
  The \<open>catch\<close> of \<open>run\<close> (lines 165 to 182): the store is loaded again, the failure is
  pushed onto \<open>stats.errors\<close>, the store is saved.
\<close>

definition saveFatalError :: "disk \<Rightarrow> jsstring \<Rightarrow> int \<Rightarrow> disk" where
  "saveFatalError d e now =
    (let processedData = loadProcessedData d
     in saveProcessedData d
          (processedData \<lparr> stats := (stats processedData)
             \<lparr> statsErrors := statsErrors (stats processedData) @
                 [\<lparr> errorTitle = None, errorMessage = e, errorTimestamp = now, fatal = True \<rparr>] \<rparr> \<rparr>))"

text \<open>\<open>testConnection\<close>: one request for the collection; a failure gives \<open>false\<close>.\<close>

definition testConnection :: "cms \<Rightarrow> bool \<times> cms" where
  "testConnection w = (case request w of (Some e, w1) \<Rightarrow> (False, w1) | (None, w1) \<Rightarrow> (True, w1))"

record config =
  euronext :: scraper_config
  webflow :: webflow_config

text \<open>
  What a run depends on beside the configuration, the store and the CMS: the date parser,
  the locale comparison and the time zone of the engine, whether the clock is within the
  scheduled hours, the web and the browser.
\<close>

record environment =
  parseDate :: date_parser
  localeCompare :: "jsstring \<Rightarrow> jsstring \<Rightarrow> int"
  tzOffset :: "int \<Rightarrow> int"
  withinScheduledHours :: bool
  web :: "nat \<Rightarrow> jsstring + markup"
  scripts :: "release \<Rightarrow> page_script"

text \<open>
  The outcome of a run: the exit code (0 when \<open>run\<close> returns, 1 for \<open>process.exit(1)\<close>),
  the file system and the CMS afterwards, and the result of \<open>createItems\<close> when the run
  got that far.
\<close>

record run_result =
  exitCode :: nat
  diskAfter :: disk
  cmsAfter :: cms
  batch :: "batch_result option"

text \<open>The limit that \<open>run\<close> passes to \<open>getLatestReleases\<close>.\<close>

definition runLimit :: "bool \<Rightarrow> nat" where
  "runLimit testMode = (if testMode then 3 else 10)"

definition run :: "config \<Rightarrow> environment \<Rightarrow> bool \<Rightarrow> int \<Rightarrow> disk \<Rightarrow> cms \<Rightarrow> run_result" where
  "run cfg env testMode now d w =
    (let processedData = loadProcessedData d in
     if \<not> testMode \<and> \<not> withinScheduledHours env then
       \<lparr> exitCode = 0, diskAfter = d, cmsAfter = w, batch = None \<rparr>
     else
       (case testConnection w of
          (False, w1) \<Rightarrow>
            \<lparr> exitCode = 1,
              diskAfter = saveFatalError d (str ''Failed to connect to Webflow API'') now,
              cmsAfter = w1, batch = None \<rparr>
        | (True, w1) \<Rightarrow>
            (case getLatestReleases (scripts env) now (runLimit testMode)
                    (fetchPressReleaseList (euronext cfg) (parseDate env) (localeCompare env) now
                       (web env)) of
               Inl e \<Rightarrow>
                 \<lparr> exitCode = 1, diskAfter = saveFatalError d e now, cmsAfter = w1, batch = None \<rparr>
             | Inr allReleases \<Rightarrow>
                 (if allReleases = [] then
                    \<lparr> exitCode = 0, diskAfter = d, cmsAfter = w1, batch = None \<rparr>
                  else
                    (let newReleases = filterNewReleases allReleases processedData in
                     if newReleases = [] then
                       \<lparr> exitCode = 0, diskAfter = d, cmsAfter = w1, batch = None \<rparr>
                     else
                       (case createItems (webflow cfg) (parseDate env) (tzOffset env) newReleases w1 of
                          (results, w2) \<Rightarrow>
                            (case updatedProcessedData processedData results now of
                               Inl e \<Rightarrow>
                                 \<lparr> exitCode = 1, diskAfter = saveFatalError d e now,
                                   cmsAfter = w2, batch = Some results \<rparr>
                             | Inr updated \<Rightarrow>
                                 \<lparr> exitCode = 0, diskAfter = saveProcessedData d updated,
                                   cmsAfter = w2, batch = Some results \<rparr>)))))))"

section \<open>Example data\<close>

text \<open>
  A date parser for the examples: the ISO dates of \<open>isoTable\<close>, and dates in the format of
  the listing page with the time values that an engine running in UTC gives them (local
  midnight, which is UTC midnight there). Every other text, in particular a date followed
  by a second line with the time of day, is an invalid date.
\<close>

definition exampleParser :: date_parser where
  "exampleParser = tableParser (isoTable @
     [(str ''27 Jun 2025'', 1750982400000),
      (str ''26 Jun 2025'', 1750896000000),
      (str ''28 Jun 2025'', 1751068800000),
      (str ''29 Jun 2025'', 1751155200000),
      (str ''01 Jul 2025'', 1751328000000),
      (str ''9 Jan 2025'', 1736380800000),
      (str ''10 Jan 2025'', 1736467200000)])"

text \<open>A table cell with a text and no attributes, and a cell with a link to a node.\<close>

definition cell :: "string \<Rightarrow> title_hit" where
  "cell t = \<lparr> hitText = str t, hitHref = None, hitInnerHref = None, hitNid = None,
              hitInnerNid = None \<rparr>"

definition nodeCell :: "string \<Rightarrow> string \<Rightarrow> title_hit" where
  "nodeCell t nid = \<lparr> hitText = str t, hitHref = None, hitInnerHref = Some (str ''#''),
                      hitNid = None, hitInnerNid = Some (str nid) \<rparr>"

definition headerRow :: row where
  "headerRow = \<lparr> hasTh = True, titleHits = [], firstLinkHref = None, dateHits = [] \<rparr>"

definition shortRow :: row where
  "shortRow = \<lparr> hasTh = False, titleHits = [Some (cell ''Notice'')], firstLinkHref = None,
                 dateHits = [Some (str ''2025-06-27'')] \<rparr>"

definition goodRow :: row where
  "goodRow = \<lparr> hasTh = False, titleHits = [None, Some (nodeCell '' Annual Report 2024 '' ''12345'')],
                firstLinkHref = Some (str ''#''), dateHits = [Some (str ''2025-06-27'')] \<rparr>"

definition otherRow :: row where
  "otherRow = \<lparr> hasTh = False, titleHits = [Some (cell ''Quarterly Report'')],
                 firstLinkHref = Some (str ''/news/7''), dateHits = [] \<rparr>"

text \<open>
  A page on which \<open>tr\<close> matches a header row and a row with a short title, \<open>.table-row\<close>
  matches one row with a full title, and \<open>.list-item\<close> would match another.
\<close>

definition exampleMarkup :: markup where
  "exampleMarkup sel =
    (if sel = ''tr'' then [headerRow, shortRow]
     else if sel = ''.table-row'' then [goodRow]
     else if sel = ''.list-item'' then [otherRow]
     else [])"

text \<open>Releases with a given raw date text.\<close>

definition releaseDated :: "string \<Rightarrow> jsstring \<Rightarrow> release" where
  "releaseDated t d =
    \<lparr> title = str t, dateText = (if d \<noteq> [] then d else str ''Unknown date''),
      url = str ''#'', nodeId = None, ident = str t, rawDate = d \<rparr>"

text \<open>
  A release with a node id, and a browser whose navigation to the listing page times
  out: every step succeeds but \<open>page.goto\<close>.
\<close>

definition exampleRelease :: release where
  "exampleRelease =
    \<lparr> title = str ''Annual Report 2024'', dateText = str ''2025-06-27'',
      url = str ''https://live.euronext.com/en/pd_press/12345'', nodeId = Some (str ''12345''),
      ident = str ''2025-06-27-annual-report-2024'', rawDate = str ''2025-06-27'' \<rparr>"

definition gotoTimeout :: page_script where
  "gotoTimeout =
    \<lparr> launchOk = True, newPageOk = True, setUserAgentOk = True, setViewportOk = True,
      gotoOk = False, waitLinkOk = True, clickOk = True, waitModalOk = True,
      evaluateResult = None \<rparr>"

text \<open>Three releases with content, a configuration of the client and two states of the CMS.\<close>

definition fullRelease :: "string \<Rightarrow> string \<Rightarrow> full_release" where
  "fullRelease t d =
     withContent (releaseDated t (str d)) (str ''<p>Text</p>'') (str d) 0"

definition draftConfig :: webflow_config where
  "draftConfig = \<lparr> publishImmediately = False, webflowRetryAttempts = Some 2 \<rparr>"

definition emptyCms :: cms where
  "emptyCms = \<lparr> items = [], faults = [] \<rparr>"

text \<open>
  A CMS that holds the item of the second release and whose fifth and sixth requests
  fail.
\<close>

definition flakyCms :: cms where
  "flakyCms =
    \<lparr> items = [\<lparr> itemId = 0, isDraft = True, slug = str ''quarterlyreport-2025-01-05'',
                  name = str ''Quarterly Report'', bodyHtml = [], published = False \<rparr>],
      faults = [None, None, None, None, Some (str ''timeout of 30000ms exceeded''),
                Some (str ''timeout of 30000ms exceeded'')] \<rparr>"

text \<open>
  A configuration, an environment whose listing page is \<open>exampleMarkup\<close>, a store whose
  error history is full, and a CMS that does not answer.
\<close>

definition exampleConfig :: config where
  "exampleConfig =
    \<lparr> euronext = \<lparr> baseUrl = str ''https://live.euronext.com'', onlyAfterDate = None,
                     euronextRetryAttempts = Some 3 \<rparr>,
      webflow = draftConfig \<rparr>"

definition exampleEnv :: environment where
  "exampleEnv =
    \<lparr> parseDate = exampleParser, localeCompare = lexCompare, tzOffset = (\<lambda>t. 0),
      withinScheduledHours = True, web = (\<lambda>n. Inr exampleMarkup),
      scripts = (\<lambda>r. gotoTimeout) \<rparr>"

definition oldError :: error_entry where
  "oldError = \<lparr> errorTitle = Some (str ''Notice of meeting''),
                 errorMessage = str ''timeout of 30000ms exceeded'',
                 errorTimestamp = 0, fatal = False \<rparr>"

definition fullStore :: disk where
  "fullStore =
    \<lparr> storeFile = Some \<lparr> lastProcessed = Some 0, processedReleases = [],
                          stats = \<lparr> totalProcessed = 0, lastRunTime = Some 0,
                                    statsErrors = replicate 10 oldError \<rparr> \<rparr>,
      writable = True \<rparr>"

definition downCms :: cms where
  "downCms = \<lparr> items = [], faults = [Some (str ''connect ETIMEDOUT'')] \<rparr>"



text \<open>
  A date parser as an engine in Oslo has it in summer, two hours ahead of UTC: the ISO
  date is UTC midnight, the dates in the format of the listing page are local midnight,
  two hours earlier.
\<close>

definition osloParser :: date_parser where
  "osloParser = tableParser
     [(str ''2025-06-27'', 1750982400000),
      (str ''27 Jun 2025'', 1750975200000),
      (str ''26 Jun 2025'', 1750888800000)]"

text \<open>
  A table row with the title in its third cell and the date text in its first, and a page
  on which the selector \<open>tr\<close> matches the given rows and no other selector matches.
\<close>

definition tableRow :: "string \<Rightarrow> jsstring \<Rightarrow> row" where
  "tableRow t d =
    \<lparr> hasTh = False, titleHits = [None, None, Some (cell t)], firstLinkHref = None,
      dateHits = [Some d] \<rparr>"

definition pageOf :: "row list \<Rightarrow> markup" where
  "pageOf rows sel = (if sel = ''tr'' then rows else [])"

text \<open>
  A configuration of the scraper with an earlier cutoff, and a release as the list parser
  makes it of a \<open>tableRow\<close> with a date text: title, date text and id.
\<close>

definition januaryConfig :: scraper_config where
  "januaryConfig =
    \<lparr> baseUrl = str ''https://live.euronext.com'', onlyAfterDate = Some (str ''2025-01-01''),
      euronextRetryAttempts = Some 3 \<rparr>"

definition listed :: "string \<Rightarrow> jsstring \<Rightarrow> string \<Rightarrow> release" where
  "listed t d i =
    \<lparr> title = str t, dateText = d, url = str ''#'', nodeId = None, ident = str i, rawDate = d \<rparr>"






section \<open>Properties of the release identifier\<close>

lemma decimal_numeral:
  "decimal (numeral k) =
     (if (numeral k :: nat) < 10 then [48 + numeral k]
      else decimal (numeral k div 10) @ [48 + numeral k mod 10])"
  "decimal 0 = [48]"
  "decimal (Suc 0) = [49]"
  by (simp_all add: decimal.simps [of "numeral k"] decimal.simps [of 0]
      decimal.simps [of "Suc 0"])

lemmas date_eval =
  isoDate_def msPerDay_def civil_def civilOfEra_def civilOfYear_def civilOfMonth_def
  yearOfEra_def dayOfYear_def isoYear_def padDigits_def decimal_numeral

lemmas id_eval =
  generateReleaseId_def substring0_def cleanTitle_def cleanUnit_def tableParser_def
  isoTable_def str_def

lemma length_generateReleaseId: "length (generateReleaseId P now ttl dt) \<le> 100"
  by (simp add: generateReleaseId_def substring0_def Let_def)

text \<open>
  Claim C1, as the code has it. The identifier is at most 100 code units long. When the
  date text parses to the time value \<open>t\<close>, the identifier is the first 100 code units of
  the UTC date of \<open>t\<close>, a hyphen and the cleaned title, whatever the clock shows, so two
  calls at different times agree. When the date text does not parse, the date part is the
  UTC date of the clock at the time of the call.
\<close>

theorem generateReleaseId_key:
  "length (generateReleaseId P now ttl dt) \<le> 100 \<and>
   (P dt = Some t \<longrightarrow>
      generateReleaseId P now ttl dt = take 100 (isoDate t @ str ''-'' @ cleanTitle ttl) \<and>
      generateReleaseId P now' ttl dt = generateReleaseId P now ttl dt) \<and>
   (P dt = None \<longrightarrow>
      generateReleaseId P now ttl dt = take 100 (isoDate now @ str ''-'' @ cleanTitle ttl))"
  by (simp add: generateReleaseId_def substring0_def Let_def str_def)

theorem generateReleaseId_key_witness:
  "tableParser isoTable (str ''2025-01-05'') = Some 1736035200000 \<and>
   generateReleaseId (tableParser isoTable) 0 (str ''Annual Report 2024'') (str ''2025-01-05'')
     = str ''2025-01-05-annual-report-2024'' \<and>
   generateReleaseId (tableParser isoTable) 86400000 (str ''Annual Report 2024'') (str ''2025-01-05'')
     = str ''2025-01-05-annual-report-2024'' \<and>
   length (generateReleaseId (tableParser isoTable) 0 (str ''Annual Report 2024'') (str ''2025-01-05'')) \<le> 100"
  using generateReleaseId_key [of "tableParser isoTable" 0 "str ''Annual Report 2024''"
      "str ''2025-01-05''" 1736035200000 86400000]
  by (simp add: id_eval date_eval)

text \<open>
  The claim as written fails for a date text that does not parse: the scraper passes
  \<open>'unknown'\<close> for a row without a date, and two calls one day apart return different
  identifiers for the same title and date text.
\<close>

theorem generateReleaseId_clock_counterexample:
  "generateReleaseId (tableParser isoTable) 0 (str ''Annual Report 2024'') (str ''unknown'')
     = str ''1970-01-01-annual-report-2024'' \<and>
   generateReleaseId (tableParser isoTable) 86400000 (str ''Annual Report 2024'') (str ''unknown'')
     = str ''1970-01-02-annual-report-2024'' \<and>
   generateReleaseId (tableParser isoTable) 0 (str ''Annual Report 2024'') (str ''unknown'')
     \<noteq> generateReleaseId (tableParser isoTable) 86400000 (str ''Annual Report 2024'') (str ''unknown'')"
  by (simp add: id_eval date_eval)

section \<open>Properties of the HTML cleaning\<close>

lemma isSpace_simps [simp]: "isSpace 32" "\<not> isSpace 60" "\<not> isSpace 62"
  by (simp_all add: isSpace_def)

lemma collapse_fix: "singleSpaced s \<Longrightarrow> collapseSpaces s = s"
  by (induction s rule: singleSpaced.induct) (auto split: if_splits)

lemma collapse_head: "\<not> isSpace c \<Longrightarrow> collapseSpaces (c # cs) = c # collapseSpaces cs"
  by simp

lemma dropWhile_head: "dropWhile P xs = y # ys \<Longrightarrow> \<not> P y"
  by (metis dropWhile_eq_Cons_conv)

lemma singleSpaced_collapse: "singleSpaced (collapseSpaces s)"
proof (induction s rule: collapseSpaces.induct)
  case 1
  show ?case by simp
next
  case (2 c cs)
  show ?case
  proof (cases "isSpace c")
    case True
    show ?thesis
    proof (cases "dropWhile isSpace cs")
      case Nil
      with True show ?thesis by (simp del: dropWhile_eq_Nil_conv)
    next
      case (Cons d ds)
      then have "\<not> isSpace d" by (rule dropWhile_head)
      with True Cons 2(1) show ?thesis by simp
    qed
  next
    case False
    with 2(2) show ?thesis by (cases "collapseSpaces cs") auto
  qed
qed

lemma closeGaps_space: "isSpace c \<Longrightarrow> closeGaps (c # cs) = c # closeGaps cs"
  by auto

lemma closeGaps_Nil_iff [simp]: "closeGaps s = [] \<longleftrightarrow> s = []"
  by (cases s) auto

lemma hd_closeGaps: "closeGaps (c # cs) = c # tl (closeGaps (c # cs))"
  by auto

lemma dropWhile_closeGaps: "dropWhile isSpace (closeGaps s) = closeGaps (dropWhile isSpace s)"
proof (induction s)
  case Nil show ?case by simp
next
  case (Cons c cs)
  show ?case
  proof (cases "isSpace c")
    case True
    then have "c \<noteq> 62" by auto
    with True Cons show ?thesis by simp
  next
    case False
    have "closeGaps (c # cs) = c # tl (closeGaps (c # cs))" by (rule hd_closeGaps)
    then have "dropWhile isSpace (closeGaps (c # cs)) = closeGaps (c # cs)"
      using False by (metis dropWhile.simps(2))
    with False show ?thesis by simp
  qed
qed

lemma head60_closeGaps:
  "(case closeGaps u of [] \<Rightarrow> False | d # _ \<Rightarrow> d = 60) = (case u of [] \<Rightarrow> False | d # _ \<Rightarrow> d = 60)"
  by (cases u) auto

lemma headSpace_closeGaps:
  "(case closeGaps u of [] \<Rightarrow> False | d # _ \<Rightarrow> isSpace d) = (case u of [] \<Rightarrow> False | d # _ \<Rightarrow> isSpace d)"
  by (cases u) auto

lemma gapAhead_alt:
  "gapAhead s = ((case s of [] \<Rightarrow> False | d # _ \<Rightarrow> isSpace d) \<and>
     (case dropWhile isSpace s of [] \<Rightarrow> False | d # _ \<Rightarrow> d = 60))"
  by (cases s) (simp_all add: gapAhead_def)

lemma gapAhead_closeGaps: "gapAhead (closeGaps s) = gapAhead s"
  unfolding gapAhead_alt dropWhile_closeGaps head60_closeGaps headSpace_closeGaps ..

lemma gapFree_closeGaps: "gapFree (closeGaps s)"
proof (induction s rule: closeGaps.induct)
  case 1 show ?case by simp
next
  case (2 c cs)
  show ?case
  proof (cases "c = 62 \<and> gapAhead cs")
    case True
    with 2(1) show ?thesis by (simp add: gapAhead_def)
  next
    case False
    with 2(2) show ?thesis by (auto simp: gapAhead_closeGaps)
  qed
qed

lemma closeGaps_fix: "gapFree s \<Longrightarrow> closeGaps s = s"
  by (induction s) auto


lemma singleSpaced_Cons:
  "singleSpaced (c # s) =
     ((if isSpace c then c = 32 \<and> (case s of [] \<Rightarrow> True | d # _ \<Rightarrow> \<not> isSpace d) else True)
      \<and> singleSpaced s)"
  by (cases s) auto

lemma singleSpaced_dropWhile: "singleSpaced s \<Longrightarrow> singleSpaced (dropWhile Q s)"
  by (induction s) (auto simp: singleSpaced_Cons simp del: singleSpaced.simps)

lemma singleSpaced_tl: "singleSpaced s \<Longrightarrow> singleSpaced (tl s)"
  by (cases s) (auto simp: singleSpaced_Cons simp del: singleSpaced.simps)

lemma singleSpaced_closeGaps: "singleSpaced s \<Longrightarrow> singleSpaced (closeGaps s)"
proof (induction s rule: closeGaps.induct)
  case 1 show ?case by simp
next
  case (2 c cs)
  from 2(3) have tail: "singleSpaced cs" by (simp add: singleSpaced_Cons)
  show ?case
  proof (cases "c = 62 \<and> gapAhead cs")
    case True
    have "singleSpaced (tl (dropWhile isSpace cs))"
      using tail by (intro singleSpaced_tl singleSpaced_dropWhile)
    with True 2(1) have "singleSpaced (closeGaps (tl (dropWhile isSpace cs)))" by simp
    with True show ?thesis by (simp add: singleSpaced_Cons del: singleSpaced.simps)
  next
    case False
    from False 2(2) tail have ih: "singleSpaced (closeGaps cs)" by blast
    have "(case closeGaps cs of [] \<Rightarrow> True | d # _ \<Rightarrow> \<not> isSpace d) =
          (case cs of [] \<Rightarrow> True | d # _ \<Rightarrow> \<not> isSpace d)"
      by (cases cs) auto
    with False ih 2(3) show ?thesis
      by (auto simp: singleSpaced_Cons simp del: singleSpaced.simps closeGaps.simps
          simp add: closeGaps.simps(2) [of c cs])
  qed
qed

lemma gapFree_dropWhile: "gapFree s \<Longrightarrow> gapFree (dropWhile Q s)"
  by (induction s) auto

lemma trimEnd_all [simp]: "list_all isSpace (trimEnd u) = list_all isSpace u"
  by (induction u) auto

lemma trimEnd_idem: "trimEnd (trimEnd u) = trimEnd u"
  by (induction u) simp_all

lemma dropWhile_all: "list_all Q u \<Longrightarrow> dropWhile Q u = []"
  by (simp add: list_all_iff)

lemma dropWhile_trimEnd: "dropWhile isSpace (trimEnd u) = trimEnd (dropWhile isSpace u)"
  by (induction u) (simp_all add: dropWhile_all)

lemma head_trimEnd:
  "(case trimEnd u of [] \<Rightarrow> False | d # _ \<Rightarrow> Q d) \<Longrightarrow> (case u of [] \<Rightarrow> False | d # _ \<Rightarrow> Q d)"
  by (cases u) (auto split: if_splits)

lemma gapAhead_trimEnd: "gapAhead (trimEnd u) \<Longrightarrow> gapAhead u"
  unfolding gapAhead_alt dropWhile_trimEnd
  using head_trimEnd [of isSpace u] head_trimEnd [of "\<lambda>d. d = 60" "dropWhile isSpace u"]
  by blast

lemma gapFree_trimEnd: "gapFree s \<Longrightarrow> gapFree (trimEnd s)"
  by (induction s) (auto dest: gapAhead_trimEnd)

lemma singleSpaced_trimEnd: "singleSpaced s \<Longrightarrow> singleSpaced (trimEnd s)"
proof (induction s)
  case Nil show ?case by simp
next
  case (Cons c cs)
  have "(case trimEnd cs of [] \<Rightarrow> False | d # _ \<Rightarrow> isSpace d) \<Longrightarrow>
        (case cs of [] \<Rightarrow> False | d # _ \<Rightarrow> isSpace d)"
    by (rule head_trimEnd)
  with Cons show ?case
    by (auto simp: singleSpaced_Cons split: list.splits simp del: singleSpaced.simps)
qed

lemma trim_idem: "trim (trim s) = trim s"
  by (simp add: trim_def trimStart_def dropWhile_trimEnd trimEnd_idem)

lemma clean_fix:
  assumes "singleSpaced w" "gapFree w" "trim w = w"
  shows "cleanHtmlContent w = w"
  using assms by (simp add: cleanHtmlContent_def collapse_fix closeGaps_fix)

text \<open>
  Claim C8. Cleaning is idempotent: cleaning an already cleaned text changes nothing,
  for every input string.
\<close>

theorem cleanHtmlContent_idempotent:
  "cleanHtmlContent (cleanHtmlContent s) = cleanHtmlContent s"
proof (rule clean_fix)
  have u: "singleSpaced (closeGaps (collapseSpaces s))"
    by (intro singleSpaced_closeGaps singleSpaced_collapse)
  show "singleSpaced (cleanHtmlContent s)"
    unfolding cleanHtmlContent_def trim_def trimStart_def
    using u by (intro singleSpaced_trimEnd singleSpaced_dropWhile)
  show "gapFree (cleanHtmlContent s)"
    unfolding cleanHtmlContent_def trim_def trimStart_def
    by (intro gapFree_trimEnd gapFree_dropWhile gapFree_closeGaps)
  show "trim (cleanHtmlContent s) = cleanHtmlContent s"
    by (simp add: cleanHtmlContent_def trim_idem)
qed

theorem cleanHtmlContent_idempotent_witness:
  "cleanHtmlContent (str '' <p>  <b>Hi  t> </b> '') = str ''<p><b>Hi t></b>'' \<and>
   cleanHtmlContent (cleanHtmlContent (str '' <p>  <b>Hi  t> </b> ''))
     = cleanHtmlContent (str '' <p>  <b>Hi  t> </b> '')"
  using cleanHtmlContent_idempotent [of "str '' <p>  <b>Hi  t> </b> ''"]
  by (simp add: cleanHtmlContent_def trim_def trimStart_def gapAhead_def isSpace_def str_def)




section \<open>Properties of the list parser\<close>

lemma parseLoop_found:
  "parseLoop bu P now M sels True releases evaluated = (releases, evaluated)"
  by (cases sels) simp_all

lemma parseLoop_skip:
  "\<forall>s \<in> set pre. parseSelector bu P now M s = [] \<Longrightarrow>
   parseLoop bu P now M (pre @ rest) False releases evaluated =
   parseLoop bu P now M rest False releases (evaluated @ pre)"
  by (induction pre arbitrary: evaluated) simp_all

text \<open>
  Claim C6. When every row selector in front of \<open>sel\<close> yields no accepted row and \<open>sel\<close>
  yields at least one, the releases of the page are exactly those of \<open>sel\<close>, and the
  selectors evaluated are exactly those up to and including \<open>sel\<close>: none of the later
  ones is evaluated, whatever they would match.
\<close>

theorem first_success_wins:
  assumes "\<forall>s \<in> set pre. parseSelector bu P now M s = []"
    and "parseSelector bu P now M sel \<noteq> []"
  shows "parseList bu P now M (pre @ sel # post) = (parseSelector bu P now M sel, pre @ [sel])"
  using assms by (simp add: parseList_def parseLoop_skip parseLoop_found)

lemmas row_eval =
  parseSelector_def parseRow_def exampleMarkup_def headerRow_def shortRow_def goodRow_def
  otherRow_def cell_def nodeCell_def List.map_filter_def trim_def trimStart_def isSpace_def
  jsOr_def truthy_def releaseUrl_def startsWithHttp_def Let_def

lemma example_tr:
  "parseSelector (str ''https://live.euronext.com'') exampleParser 0 exampleMarkup ''tr'' = []"
  by (simp add: row_eval str_def)

lemma example_tbody:
  "parseSelector (str ''https://live.euronext.com'') exampleParser 0 exampleMarkup ''tbody tr'' = []"
  by (simp add: row_eval)

lemma example_table_row:
  "parseSelector (str ''https://live.euronext.com'') exampleParser 0 exampleMarkup ''.table-row'' =
     [\<lparr> title = str ''Annual Report 2024'', dateText = str ''2025-06-27'',
        url = str ''https://live.euronext.com/en/pd_press/12345'', nodeId = Some (str ''12345''),
        ident = str ''2025-06-27-annual-report-2024'', rawDate = str ''2025-06-27'' \<rparr>]"
  by (simp add: row_eval exampleParser_def id_eval date_eval)

theorem first_success_wins_witness:
  "parseSelector (str ''https://live.euronext.com'') exampleParser 0 exampleMarkup ''tr'' = [] \<and>
   parseSelector (str ''https://live.euronext.com'') exampleParser 0 exampleMarkup ''tbody tr'' = [] \<and>
   parseSelector (str ''https://live.euronext.com'') exampleParser 0 exampleMarkup ''.table-row'' \<noteq> [] \<and>
   parseSelector (str ''https://live.euronext.com'') exampleParser 0 exampleMarkup ''.list-item'' \<noteq> [] \<and>
   parseList (str ''https://live.euronext.com'') exampleParser 0 exampleMarkup selectors =
     ([\<lparr> title = str ''Annual Report 2024'', dateText = str ''2025-06-27'',
         url = str ''https://live.euronext.com/en/pd_press/12345'', nodeId = Some (str ''12345''),
         ident = str ''2025-06-27-annual-report-2024'', rawDate = str ''2025-06-27'' \<rparr>],
      [''tr'', ''tbody tr'', ''.table-row''])"
proof -
  have other: "parseSelector (str ''https://live.euronext.com'') exampleParser 0 exampleMarkup ''.list-item'' \<noteq> []"
    by (simp add: row_eval str_def)
  have sels: "selectors = [''tr'', ''tbody tr''] @ ''.table-row'' #
      [''.list-item'', ''.press-release-item'', ''[data-testid=\"table-row\"]'', ''.row'', ''tr[role=\"row\"]'']"
    by (simp add: selectors_def)
  have pre: "\<forall>s \<in> set [''tr'', ''tbody tr''].
      parseSelector (str ''https://live.euronext.com'') exampleParser 0 exampleMarkup s = []"
    using example_tr example_tbody by simp
  have hit: "parseSelector (str ''https://live.euronext.com'') exampleParser 0 exampleMarkup ''.table-row'' \<noteq> []"
    using example_table_row by simp
  show ?thesis
    using first_success_wins [OF pre hit,
        of "[''.list-item'', ''.press-release-item'', ''[data-testid=\"table-row\"]'', ''.row'', ''tr[role=\"row\"]'']"]
      example_tr example_tbody example_table_row other
    unfolding sels by simp
qed

section \<open>Properties of the cutoff filter and the sorter\<close>

lemma mset_insertBy: "mset (insertBy cmp x ys) = add_mset x (mset ys)"
  by (induction ys) simp_all

lemma mset_sortBy: "mset (sortBy cmp xs) = mset xs"
  by (induction xs) (simp_all add: sortBy_def mset_insertBy)

lemma set_sortBy: "set (sortBy cmp xs) = set xs"
  by (metis mset_sortBy set_mset_mset)

lemma sortBy_Cons: "sortBy cmp (x # xs) = insertBy cmp x (sortBy cmp xs)"
  by (simp add: sortBy_def)

lemma set_insertBy: "set (insertBy cmp x ys) = insert x (set ys)"
  by (metis mset_insertBy set_mset_add_mset_insert set_mset_mset)

lemma sorted_insertBy:
  assumes "\<forall>y \<in> set ys. cmp x y = k y - k x"
    and "sorted_wrt (\<lambda>a b. k b \<le> k a) ys"
  shows "sorted_wrt (\<lambda>a b. k b \<le> (k a :: int)) (insertBy cmp x ys)"
  using assms
proof (induction ys)
  case Nil
  show ?case by simp
next
  case (Cons y ys)
  show ?case
  proof (cases "cmp x y \<le> 0")
    case True
    with Cons.prems have "k y \<le> k x" by simp
    with Cons.prems True show ?thesis by fastforce
  next
    case False
    with Cons.prems have "k x \<le> k y" by simp
    with Cons False show ?thesis by (auto simp: set_insertBy)
  qed
qed

lemma sorted_sortBy:
  assumes "\<forall>x \<in> set xs. \<forall>y \<in> set xs. cmp x y = k y - k x"
  shows "sorted_wrt (\<lambda>a b. k b \<le> (k a :: int)) (sortBy cmp xs)"
  using assms
proof (induction xs)
  case Nil
  show ?case by (simp add: sortBy_def)
next
  case (Cons x xs)
  then show ?case
    by (simp add: sortBy_Cons sorted_insertBy set_sortBy)
qed

lemma sorted_insertBy_consistent:
  assumes tot: "\<And>y. y \<in> set ys \<Longrightarrow> 0 < cmp x y \<Longrightarrow> cmp y x \<le> (0::int)"
    and tr: "\<And>y z. y \<in> set ys \<Longrightarrow> z \<in> set ys \<Longrightarrow> cmp x y \<le> 0 \<Longrightarrow> cmp y z \<le> 0 \<Longrightarrow> cmp x z \<le> 0"
    and srt: "sorted_wrt (\<lambda>a b. cmp a b \<le> 0) ys"
  shows "sorted_wrt (\<lambda>a b. cmp a b \<le> 0) (insertBy cmp x ys)"
  using assms
proof (induction ys)
  case Nil
  show ?case by simp
next
  case (Cons y ys)
  from Cons.prems(3) have tail: "sorted_wrt (\<lambda>a b. cmp a b \<le> 0) ys"
    and head: "\<And>z. z \<in> set ys \<Longrightarrow> cmp y z \<le> 0"
    by simp_all
  show ?case
  proof (cases "cmp x y \<le> 0")
    case True
    have "cmp x z \<le> 0" if "z \<in> set ys" for z
      using Cons.prems(2) [of y z] True head [OF that] that by simp
    with True tail head show ?thesis by simp
  next
    case False
    then have "0 < cmp x y" by simp
    then have yx: "cmp y x \<le> 0" using Cons.prems(1) [of y] by simp
    have "sorted_wrt (\<lambda>a b. cmp a b \<le> 0) (insertBy cmp x ys)"
    proof (rule Cons.IH)
      show "cmp z x \<le> 0" if "z \<in> set ys" "0 < cmp x z" for z
        using Cons.prems(1) [of z] that by simp
      show "cmp x z \<le> 0" if "u \<in> set ys" "z \<in> set ys" "cmp x u \<le> 0" "cmp u z \<le> 0" for u z
        using Cons.prems(2) [of u z] that by simp
      show "sorted_wrt (\<lambda>a b. cmp a b \<le> 0) ys" by (rule tail)
    qed
    moreover have "cmp y z \<le> 0" if "z \<in> set (insertBy cmp x ys)" for z
      using that yx head by (auto simp: set_insertBy)
    ultimately show ?thesis using False by simp
  qed
qed

lemma sorted_sortBy_consistent:
  assumes tot: "\<And>x y. x \<in> set xs \<Longrightarrow> y \<in> set xs \<Longrightarrow> 0 < cmp x y \<Longrightarrow> cmp y x \<le> (0::int)"
    and tr: "\<And>x y z. x \<in> set xs \<Longrightarrow> y \<in> set xs \<Longrightarrow> z \<in> set xs \<Longrightarrow>
               cmp x y \<le> 0 \<Longrightarrow> cmp y z \<le> 0 \<Longrightarrow> cmp x z \<le> 0"
  shows "sorted_wrt (\<lambda>a b. cmp a b \<le> 0) (sortBy cmp xs)"
  using assms
proof (induction xs)
  case Nil
  show ?case by (simp add: sortBy_def)
next
  case (Cons x xs)
  have ih: "sorted_wrt (\<lambda>a b. cmp a b \<le> 0) (sortBy cmp xs)"
  proof (rule Cons.IH)
    show "cmp b a \<le> 0" if "a \<in> set xs" "b \<in> set xs" "0 < cmp a b" for a b
      using Cons.prems(1) [of a b] that by simp
    show "cmp a c \<le> 0" if "a \<in> set xs" "b \<in> set xs" "c \<in> set xs" "cmp a b \<le> 0" "cmp b c \<le> 0"
      for a b c
      using Cons.prems(2) [of a b c] that by simp
  qed
  show ?case
    unfolding sortBy_Cons
  proof (rule sorted_insertBy_consistent)
    show "cmp y x \<le> 0" if "y \<in> set (sortBy cmp xs)" "0 < cmp x y" for y
      using Cons.prems(1) [of x y] that by (simp add: set_sortBy)
    show "cmp x z \<le> 0"
      if "y \<in> set (sortBy cmp xs)" "z \<in> set (sortBy cmp xs)" "cmp x y \<le> 0" "cmp y z \<le> 0" for y z
      using Cons.prems(2) [of x y z] that by (simp add: set_sortBy)
    show "sorted_wrt (\<lambda>a b. cmp a b \<le> 0) (sortBy cmp xs)" by (rule ih)
  qed
qed

text \<open>
  Claim C4, as the code has it. The filter compares time values: a release is kept when
  its date text (cut at the first line feed) parses to a time value at or after that of
  the cutoff, it is dropped when the time value is before the cutoff, and it is dropped
  when the text does not parse. The cutoff is an ISO date, read as UTC midnight; the
  date of a release is read as the engine reads it, for the format of the listing page as
  local midnight. With local time \<open>ahead\<close> milliseconds ahead of UTC, a release dated on
  the day of the cutoff has the time value \<open>cutoff - ahead\<close>: it is kept when the engine is
  in UTC or behind it and dropped when the engine is ahead of UTC. A release dated one
  day before the cutoff is dropped. The list returned for a page holds exactly the parsed
  releases that the filter keeps.
\<close>

theorem cutoff_filter:
  "(P (normalizeDateText (dateKey r)) = Some t \<and> cutoff \<le> t \<longrightarrow> isRecent P cutoff r) \<and>
   (P (normalizeDateText (dateKey r)) = Some t \<and> t < cutoff \<longrightarrow> \<not> isRecent P cutoff r) \<and>
   (P (normalizeDateText (dateKey r)) = None \<longrightarrow> \<not> isRecent P cutoff r) \<and>
   (P (normalizeDateText (dateKey r)) = Some (cutoff - ahead) \<and> ahead \<le> 0 \<longrightarrow>
      isRecent P cutoff r) \<and>
   (P (normalizeDateText (dateKey r)) = Some (cutoff - ahead) \<and> 0 < ahead \<longrightarrow>
      \<not> isRecent P cutoff r) \<and>
   (P (normalizeDateText (dateKey r)) = Some (cutoff - msPerDay - ahead) \<and> - msPerDay < ahead \<longrightarrow>
      \<not> isRecent P cutoff r) \<and>
   (cutoffDate P (onlyAfterDate cfg) = Some cutoff \<and> listFromMarkup cfg P lc now M = Inr out \<longrightarrow>
      set out = {x \<in> set (fst (parseList (baseUrl cfg) P now M selectors)). isRecent P cutoff x})"
  by (auto simp: isRecent_def msPerDay_def listFromMarkup_def set_sortBy)

lemmas filter_eval =
  isRecent_def normalizeDateText_def dateKey_def releaseDated_def exampleParser_def
  tableParser_def isoTable_def trim_def trimStart_def isSpace_def cutoffDate_def jsOr_def
  truthy_def str_def

lemmas page_eval =
  listFromMarkup_def parseList_def selectors_def parseSelector_def parseRow_def pageOf_def
  tableRow_def cell_def List.map_filter_def Let_def sortBy_def generateReleaseId_def
  substring0_def releaseUrl_def

lemma example_filtered_page:
  "listFromMarkup (euronext exampleConfig) exampleParser lexCompare 0
     (pageOf [tableRow ''Annual Report 2024'' (str ''27 Jun 2025'' @ [10] @ str ''07:45 CEST''),
              tableRow ''Notice of meeting'' (str ''26 Jun 2025'' @ [10] @ str ''16:30 CEST''),
              tableRow ''Quarterly Report'' []]) =
   Inr [\<lparr> title = str ''Annual Report 2024'',
           dateText = str ''27 Jun 2025'' @ [10] @ str ''07:45 CEST'', url = str ''#'',
           nodeId = None, ident = str ''1970-01-01-annual-report-2024'',
           rawDate = str ''27 Jun 2025'' @ [10] @ str ''07:45 CEST'' \<rparr>]"
  by (simp add: exampleConfig_def filter_eval page_eval compareReleases_def cleanTitle_def
      cleanUnit_def date_eval)

theorem cutoff_filter_witness:
  "cutoffDate exampleParser None = Some 1750982400000 \<and>
   normalizeDateText (str ''27 Jun 2025'' @ [10] @ str ''07:45 CEST'') = str ''27 Jun 2025'' \<and>
   isRecent exampleParser 1750982400000
     (releaseDated ''Annual Report 2024'' (str ''27 Jun 2025'' @ [10] @ str ''07:45 CEST'')) \<and>
   \<not> isRecent exampleParser 1750982400000
     (releaseDated ''Annual Report 2024'' (str ''26 Jun 2025'' @ [10] @ str ''07:45 CEST'')) \<and>
   \<not> isRecent exampleParser 1750982400000 (releaseDated ''Annual Report 2024'' []) \<and>
   listFromMarkup (euronext exampleConfig) exampleParser lexCompare 0
     (pageOf [tableRow ''Annual Report 2024'' (str ''27 Jun 2025'' @ [10] @ str ''07:45 CEST''),
              tableRow ''Notice of meeting'' (str ''26 Jun 2025'' @ [10] @ str ''16:30 CEST''),
              tableRow ''Quarterly Report'' []]) =
   Inr [\<lparr> title = str ''Annual Report 2024'',
           dateText = str ''27 Jun 2025'' @ [10] @ str ''07:45 CEST'', url = str ''#'',
           nodeId = None, ident = str ''1970-01-01-annual-report-2024'',
           rawDate = str ''27 Jun 2025'' @ [10] @ str ''07:45 CEST'' \<rparr>]"
  using cutoff_filter [of exampleParser
      "releaseDated ''Annual Report 2024'' (str ''27 Jun 2025'' @ [10] @ str ''07:45 CEST'')"
      1750982400000 1750982400000 0]
    cutoff_filter [of exampleParser
      "releaseDated ''Annual Report 2024'' (str ''26 Jun 2025'' @ [10] @ str ''07:45 CEST'')"
      1750896000000 1750982400000 0]
    example_filtered_page
  by (simp add: filter_eval)

text \<open>
  The claim as written fails on an engine ahead of UTC. In Oslo the cutoff \<open>2025-06-27\<close>
  is 27 June, 00:00 UTC, and the date of a release of 27 June is 26 June, 22:00 UTC: the
  release dated on the day of the cutoff is dropped.
\<close>

lemmas oslo_eval =
  isRecent_def normalizeDateText_def dateKey_def releaseDated_def osloParser_def
  tableParser_def trim_def trimStart_def isSpace_def cutoffDate_def jsOr_def truthy_def str_def

theorem cutoff_day_dropped_east_of_utc:
  "cutoffDate osloParser None = Some 1750982400000 \<and>
   osloParser (normalizeDateText (str ''27 Jun 2025'' @ [10] @ str ''07:45 CEST''))
     = Some 1750975200000 \<and>
   \<not> isRecent osloParser 1750982400000
     (releaseDated ''Annual Report 2024'' (str ''27 Jun 2025'' @ [10] @ str ''07:45 CEST'')) \<and>
   listFromMarkup (euronext exampleConfig) osloParser lexCompare 0
     (pageOf [tableRow ''Annual Report 2024'' (str ''27 Jun 2025'' @ [10] @ str ''07:45 CEST'')])
     = Inr []"
  by (simp add: exampleConfig_def oslo_eval page_eval)

lemma compare_both:
  "P (dateKey a) = Some ta \<Longrightarrow> P (dateKey b) = Some tb \<Longrightarrow> compareReleases P lc a b = tb - ta"
  by (simp add: compareReleases_def)

lemma compare_fallback:
  "P (dateKey a) = None \<or> P (dateKey b) = None \<Longrightarrow>
   compareReleases P lc a b = lc (dateKey b) (dateKey a)"
  by (auto simp: compareReleases_def split: option.splits)

lemma sortBy_pair: "sortBy cmp [a, b] = (if cmp a b \<le> 0 then [a, b] else [b, a])"
  by (simp add: sortBy_def)

lemma sortBy_all_parse:
  assumes "\<forall>r \<in> set rs. P (dateKey r) \<noteq> None"
  shows "sorted_wrt (\<lambda>x y. timeOf P y \<le> timeOf P x) (sortBy (compareReleases P lc) rs)"
proof (rule sorted_sortBy)
  show "\<forall>x\<in>set rs. \<forall>y\<in>set rs. compareReleases P lc x y = timeOf P y - timeOf P x"
  proof (intro ballI)
    fix x y
    assume "x \<in> set rs" "y \<in> set rs"
    with assms obtain ta tb where "P (dateKey x) = Some ta" "P (dateKey y) = Some tb"
      by blast
    then show "compareReleases P lc x y = timeOf P y - timeOf P x"
      by (simp add: compare_both timeOf_def)
  qed
qed

lemma sortBy_none_parse:
  assumes none: "\<forall>r \<in> set rs. P (dateKey r) = None"
    and pre: "totalPreorderOn lc (map dateKey rs)"
  shows "sorted_wrt (\<lambda>x y. lc (dateKey y) (dateKey x) \<le> 0) (sortBy (compareReleases P lc) rs)"
proof -
  have cmp: "compareReleases P lc x y = lc (dateKey y) (dateKey x)" if "x \<in> set rs" for x y
    using that none by (simp add: compare_fallback)
  have tot: "lc (dateKey x) (dateKey y) \<le> 0"
    if "x \<in> set rs" "y \<in> set rs" "0 < lc (dateKey y) (dateKey x)" for x y
  proof -
    from that(1,2) have "dateKey x \<in> set (map dateKey rs)" "dateKey y \<in> set (map dateKey rs)"
      by simp_all
    with pre that(3) show ?thesis unfolding totalPreorderOn_def by blast
  qed
  have tr: "lc (dateKey z) (dateKey x) \<le> 0"
    if "x \<in> set rs" "y \<in> set rs" "z \<in> set rs"
      "lc (dateKey y) (dateKey x) \<le> 0" "lc (dateKey z) (dateKey y) \<le> 0" for x y z
  proof -
    from that(1,2,3) have "dateKey x \<in> set (map dateKey rs)" "dateKey y \<in> set (map dateKey rs)"
      "dateKey z \<in> set (map dateKey rs)"
      by simp_all
    with pre that(4,5) show ?thesis unfolding totalPreorderOn_def by blast
  qed
  have "sorted_wrt (\<lambda>a b. compareReleases P lc a b \<le> 0) (sortBy (compareReleases P lc) rs)"
  proof (rule sorted_sortBy_consistent)
    show "compareReleases P lc y x \<le> 0"
      if "x \<in> set rs" "y \<in> set rs" "0 < compareReleases P lc x y" for x y
      using tot [of x y] that by (simp add: cmp)
    show "compareReleases P lc x z \<le> 0"
      if "x \<in> set rs" "y \<in> set rs" "z \<in> set rs"
        "compareReleases P lc x y \<le> 0" "compareReleases P lc y z \<le> 0" for x y z
      using tr [of x y z] that by (simp add: cmp)
  qed
  then show ?thesis
  proof (rule sorted_wrt_mono_rel [rotated])
    fix x y assume "x \<in> set (sortBy (compareReleases P lc) rs)"
      "y \<in> set (sortBy (compareReleases P lc) rs)" "compareReleases P lc x y \<le> 0"
    then show "lc (dateKey y) (dateKey x) \<le> 0" by (simp add: cmp set_sortBy)
  qed
qed

lemma totalPreorderOn_set: "set ks = set ks' \<Longrightarrow> totalPreorderOn lc ks = totalPreorderOn lc ks'"
  by (simp add: totalPreorderOn_def)

lemma listFromMarkup_sorted:
  assumes "listFromMarkup cfg P lc now M = Inr out"
  shows "\<exists>cutoff. cutoffDate P (onlyAfterDate cfg) = Some cutoff \<and>
     out = sortBy (compareReleases P lc)
             (filter (isRecent P cutoff) (fst (parseList (baseUrl cfg) P now M selectors)))"
  using assms by (auto simp: listFromMarkup_def split: option.splits)

text \<open>
  Claim C5, as the code has it. For two releases whose raw date texts both parse, the
  comparator is the difference of the time values, later first, so that of a pair the
  later one is put in front, whichever order the pair came in. When at least one side
  does not parse, the comparator is the locale comparison of the raw date texts, the
  second against the first, which sorts the pair in descending order of the texts. The
  list returned for a page is a rearrangement of the releases that the filter kept. It is
  sorted newest first when all its raw date texts parse, and it is in descending locale
  order of the raw date texts when none of them parses, provided the locale comparison
  orders these texts.
\<close>

theorem sorter_newest_first:
  "(P (dateKey a) = Some ta \<and> P (dateKey b) = Some tb \<longrightarrow>
      compareReleases P lc a b = tb - ta) \<and>
   (P (dateKey a) = Some ta \<and> P (dateKey b) = Some tb \<and> ta < tb \<longrightarrow>
      sortBy (compareReleases P lc) [a, b] = [b, a] \<and>
      sortBy (compareReleases P lc) [b, a] = [b, a]) \<and>
   (P (dateKey a) = None \<or> P (dateKey b) = None \<longrightarrow>
      compareReleases P lc a b = lc (dateKey b) (dateKey a) \<and>
      sortBy (compareReleases P lc) [a, b] =
        (if lc (dateKey b) (dateKey a) \<le> 0 then [a, b] else [b, a])) \<and>
   (listFromMarkup cfg P lc now M = Inr out \<and> cutoffDate P (onlyAfterDate cfg) = Some cutoff \<longrightarrow>
      mset out = mset (filter (isRecent P cutoff)
                         (fst (parseList (baseUrl cfg) P now M selectors)))) \<and>
   (listFromMarkup cfg P lc now M = Inr out \<and> (\<forall>r \<in> set out. P (dateKey r) \<noteq> None) \<longrightarrow>
      sorted_wrt (\<lambda>x y. timeOf P y \<le> timeOf P x) out) \<and>
   (listFromMarkup cfg P lc now M = Inr out \<and> (\<forall>r \<in> set out. P (dateKey r) = None) \<and>
    totalPreorderOn lc (map dateKey out) \<longrightarrow>
      sorted_wrt (\<lambda>x y. lc (dateKey y) (dateKey x) \<le> 0) out)"
proof -
  have pairs: "(P (dateKey a) = Some ta \<and> P (dateKey b) = Some tb \<longrightarrow>
      compareReleases P lc a b = tb - ta) \<and>
   (P (dateKey a) = Some ta \<and> P (dateKey b) = Some tb \<and> ta < tb \<longrightarrow>
      sortBy (compareReleases P lc) [a, b] = [b, a] \<and>
      sortBy (compareReleases P lc) [b, a] = [b, a]) \<and>
   (P (dateKey a) = None \<or> P (dateKey b) = None \<longrightarrow>
      compareReleases P lc a b = lc (dateKey b) (dateKey a) \<and>
      sortBy (compareReleases P lc) [a, b] =
        (if lc (dateKey b) (dateKey a) \<le> 0 then [a, b] else [b, a]))"
    by (auto simp: compare_both compare_fallback sortBy_pair)
  have perm: "mset out = mset (filter (isRecent P cutoff)
                         (fst (parseList (baseUrl cfg) P now M selectors)))"
    if "listFromMarkup cfg P lc now M = Inr out" "cutoffDate P (onlyAfterDate cfg) = Some cutoff"
    using listFromMarkup_sorted [OF that(1)] that(2) by (auto simp: mset_sortBy)
  have newest: "sorted_wrt (\<lambda>x y. timeOf P y \<le> timeOf P x) out"
    if "listFromMarkup cfg P lc now M = Inr out" "\<forall>r \<in> set out. P (dateKey r) \<noteq> None"
  proof -
    from listFromMarkup_sorted [OF that(1)] obtain rs
      where out: "out = sortBy (compareReleases P lc) rs" by blast
    with that(2) have "\<forall>r \<in> set rs. P (dateKey r) \<noteq> None" by (simp add: set_sortBy)
    then show ?thesis unfolding out by (rule sortBy_all_parse)
  qed
  have lexical: "sorted_wrt (\<lambda>x y. lc (dateKey y) (dateKey x) \<le> 0) out"
    if "listFromMarkup cfg P lc now M = Inr out" "\<forall>r \<in> set out. P (dateKey r) = None"
      "totalPreorderOn lc (map dateKey out)"
  proof -
    from listFromMarkup_sorted [OF that(1)] obtain rs
      where out: "out = sortBy (compareReleases P lc) rs" by blast
    with that(2) have none: "\<forall>r \<in> set rs. P (dateKey r) = None" by (simp add: set_sortBy)
    have "set (map dateKey out) = set (map dateKey rs)" by (simp add: out set_sortBy)
    from totalPreorderOn_set [OF this, of lc] that(3)
    have "totalPreorderOn lc (map dateKey rs)" by blast
    with none show ?thesis unfolding out by (rule sortBy_none_parse)
  qed
  from pairs perm newest lexical show ?thesis by blast
qed


lemmas sorter_eval =
  filter_eval page_eval compareReleases_def cleanTitle_def cleanUnit_def date_eval listed_def

lemma example_iso_page:
  "listFromMarkup januaryConfig exampleParser lexCompare 0
     (pageOf [tableRow ''Notice of meeting'' (str ''2025-01-02''),
              tableRow ''Annual Report 2024'' (str ''2025-01-05'')]) =
   Inr [listed ''Annual Report 2024'' (str ''2025-01-05'') ''2025-01-05-annual-report-2024'',
        listed ''Notice of meeting'' (str ''2025-01-02'') ''2025-01-02-notice-of-meeting'']"
  by (simp add: januaryConfig_def sorter_eval)

lemma example_two_line_page:
  "listFromMarkup (euronext exampleConfig) exampleParser lexCompare 0
     (pageOf [tableRow ''Annual Report 2024'' (str ''01 Jul 2025'' @ [10] @ str ''08:00 CEST''),
              tableRow ''Notice of meeting'' (str ''27 Jun 2025'' @ [10] @ str ''07:45 CEST'')]) =
   Inr [listed ''Notice of meeting'' (str ''27 Jun 2025'' @ [10] @ str ''07:45 CEST'')
          ''1970-01-01-notice-of-meeting'',
        listed ''Annual Report 2024'' (str ''01 Jul 2025'' @ [10] @ str ''08:00 CEST'')
          ''1970-01-01-annual-report-2024'']"
  by (simp add: exampleConfig_def sorter_eval)

theorem sorter_newest_first_witness:
  "listFromMarkup januaryConfig exampleParser lexCompare 0
     (pageOf [tableRow ''Notice of meeting'' (str ''2025-01-02''),
              tableRow ''Annual Report 2024'' (str ''2025-01-05'')]) =
   Inr [listed ''Annual Report 2024'' (str ''2025-01-05'') ''2025-01-05-annual-report-2024'',
        listed ''Notice of meeting'' (str ''2025-01-02'') ''2025-01-02-notice-of-meeting''] \<and>
   sortBy (compareReleases exampleParser lexCompare)
     [listed ''Notice of meeting'' (str ''2025-01-02'') ''2025-01-02-notice-of-meeting'',
      listed ''Annual Report 2024'' (str ''2025-01-05'') ''2025-01-05-annual-report-2024''] =
     [listed ''Annual Report 2024'' (str ''2025-01-05'') ''2025-01-05-annual-report-2024'',
      listed ''Notice of meeting'' (str ''2025-01-02'') ''2025-01-02-notice-of-meeting''] \<and>
   listFromMarkup (euronext exampleConfig) exampleParser lexCompare 0
     (pageOf [tableRow ''Annual Report 2024'' (str ''01 Jul 2025'' @ [10] @ str ''08:00 CEST''),
              tableRow ''Notice of meeting'' (str ''27 Jun 2025'' @ [10] @ str ''07:45 CEST'')]) =
   Inr [listed ''Notice of meeting'' (str ''27 Jun 2025'' @ [10] @ str ''07:45 CEST'')
          ''1970-01-01-notice-of-meeting'',
        listed ''Annual Report 2024'' (str ''01 Jul 2025'' @ [10] @ str ''08:00 CEST'')
          ''1970-01-01-annual-report-2024''] \<and>
   compareReleases exampleParser lexCompare
     (listed ''Annual Report 2024'' (str ''01 Jul 2025'' @ [10] @ str ''08:00 CEST'')
        ''1970-01-01-annual-report-2024'')
     (listed ''Notice of meeting'' (str ''27 Jun 2025'' @ [10] @ str ''07:45 CEST'')
        ''1970-01-01-notice-of-meeting'') = 1"
proof -
  have parsed: "\<forall>r \<in> set [listed ''Annual Report 2024'' (str ''2025-01-05'') ''2025-01-05-annual-report-2024'',
        listed ''Notice of meeting'' (str ''2025-01-02'') ''2025-01-02-notice-of-meeting''].
      exampleParser (dateKey r) \<noteq> None"
    by (simp add: sorter_eval)
  have two: "exampleParser (dateKey (listed ''Notice of meeting'' (str ''2025-01-02'')
        ''2025-01-02-notice-of-meeting'')) = Some 1735776000000"
      "exampleParser (dateKey (listed ''Annual Report 2024'' (str ''2025-01-05'')
        ''2025-01-05-annual-report-2024'')) = Some 1736035200000"
    by (simp_all add: sorter_eval)
  have fallback: "compareReleases exampleParser lexCompare
     (listed ''Annual Report 2024'' (str ''01 Jul 2025'' @ [10] @ str ''08:00 CEST'')
        ''1970-01-01-annual-report-2024'')
     (listed ''Notice of meeting'' (str ''27 Jun 2025'' @ [10] @ str ''07:45 CEST'')
        ''1970-01-01-notice-of-meeting'') = 1"
    by (simp add: sorter_eval)
  show ?thesis
    using sorter_newest_first [of exampleParser
        "listed ''Notice of meeting'' (str ''2025-01-02'') ''2025-01-02-notice-of-meeting''"
        1735776000000
        "listed ''Annual Report 2024'' (str ''2025-01-05'') ''2025-01-05-annual-report-2024''"
        1736035200000 lexCompare januaryConfig 0
        "pageOf [tableRow ''Notice of meeting'' (str ''2025-01-02''),
                 tableRow ''Annual Report 2024'' (str ''2025-01-05'')]"
        "[listed ''Annual Report 2024'' (str ''2025-01-05'') ''2025-01-05-annual-report-2024'',
          listed ''Notice of meeting'' (str ''2025-01-02'') ''2025-01-02-notice-of-meeting'']"
        1735689600000]
      two parsed fallback example_iso_page example_two_line_page
    by simp
qed

text \<open>
  The claim as written fails for a list that mixes raw date texts that parse with texts
  that do not. On a page with a release of 9 January, a release whose date text has a
  second line, and a release of 10 January, in this order, the list comes back in the
  same order: the release of 9 January precedes the later release of 10 January.
\<close>

theorem mixed_list_not_newest_first:
  "listFromMarkup januaryConfig exampleParser lexCompare 0
     (pageOf [tableRow ''Notice of meeting'' (str ''9 Jan 2025''),
              tableRow ''Quarterly Report'' (str ''27 Jun 2025'' @ [10] @ str ''07:45 CEST''),
              tableRow ''Annual Report 2024'' (str ''10 Jan 2025'')]) =
   Inr [listed ''Notice of meeting'' (str ''9 Jan 2025'') ''2025-01-09-notice-of-meeting'',
        listed ''Quarterly Report'' (str ''27 Jun 2025'' @ [10] @ str ''07:45 CEST'')
          ''1970-01-01-quarterly-report'',
        listed ''Annual Report 2024'' (str ''10 Jan 2025'') ''2025-01-10-annual-report-2024''] \<and>
   exampleParser (dateKey (listed ''Notice of meeting'' (str ''9 Jan 2025'')
     ''2025-01-09-notice-of-meeting'')) = Some 1736380800000 \<and>
   exampleParser (dateKey (listed ''Annual Report 2024'' (str ''10 Jan 2025'')
     ''2025-01-10-annual-report-2024'')) = Some 1736467200000"
  by (simp add: januaryConfig_def sorter_eval)


section \<open>Properties of the content extraction\<close>

text \<open>
  When the browser was launched, it is closed at the return of the call exactly when the
  four steps in front of the inner \<open>try\<close> succeeded.
\<close>

lemma browser_after_fetch:
  "snd (fetchPressReleaseContent sc now r) =
     (if \<not> truthy (nodeId r) \<or> \<not> launchOk sc then NotLaunched
      else if newPageOk sc \<and> setUserAgentOk sc \<and> setViewportOk sc \<and> gotoOk sc then Closed
      else Open)"
  by (simp add: fetchPressReleaseContent_def closeBrowser_def split: option.splits)

lemma fetchDirectAttempt_closes: "snd (fetchDirectAttempt sc now r) \<noteq> Open"
  by (simp add: fetchDirectAttempt_def closeBrowser_def split: option.splits)

text \<open>
  Claim C3 fails on scraper.js. For a release with a node id, when \<open>page.goto\<close> throws
  after a successful launch, the call returns the fallback content and the browser is
  still open: the outer \<open>catch\<close> does not close it. (The earlier version of the method
  closes the browser in a \<open>finally\<close>, see \<open>fetchDirectAttempt_closes\<close>.)
\<close>

theorem fetchPressReleaseContent_leaves_browser_open:
  "fetchPressReleaseContent gotoTimeout 0 exampleRelease = (fallbackRelease exampleRelease 0, Open)"
  by (simp add: fetchPressReleaseContent_def gotoTimeout_def exampleRelease_def truthy_def str_def)


section \<open>Properties of the CMS client\<close>

lemma str_eq_iff [simp]: "str a = str b \<longleftrightarrow> a = b"
proof -
  have "inj (of_char :: char \<Rightarrow> nat)" by (rule inj_of_char)
  then show ?thesis by (simp add: str_def inj_map_eq_map)
qed

lemmas slug_eval =
  generateUniqueSlug_def generateSlug_def slugUnit_def datePart_def substring0_def
  trim_def trimStart_def isSpace_def exampleParser_def tableParser_def isoTable_def
  msPerDay_def civil_def civilOfEra_def civilOfYear_def civilOfMonth_def
  yearOfEra_def dayOfYear_def showInt_def padStart2_def decimal_numeral str_def

lemma slug_annual:
  "generateUniqueSlug exampleParser (\<lambda>t. 0) (str ''Annual Report 2024'') (str ''2025-06-27'')
     = str ''annualreport2024-2025-06-27''"
  by (simp add: slug_eval)

lemma slug_quarterly:
  "generateUniqueSlug exampleParser (\<lambda>t. 0) (str ''Quarterly Report'') (str ''2025-01-05'')
     = str ''quarterlyreport-2025-01-05''"
  by (simp add: slug_eval)

lemma slug_notice:
  "generateUniqueSlug exampleParser (\<lambda>t. 0) (str ''Notice of meeting'') (str ''2025-01-02'')
     = str ''noticeofmeeting-2025-01-02''"
  by (simp add: slug_eval)

lemmas cms_eval =
  createItems_def itemExists_def createItem_def createAttempt_def request_def attemptsOf_def
  retry.simps fullRelease_def withContent_def releaseDated_def draftConfig_def flakyCms_def
  emptyCms_def slug_annual slug_quarterly slug_notice Let_def


lemma createItemsLoop_buckets:
  "createItemsLoop cfg P tz rs res w = (res', w') \<Longrightarrow>
   length (created res') + length (skipped res') + length (errors res') =
     length (created res) + length (skipped res) + length (errors res) + length rs \<and>
   mset (map fst (created res')) + mset (skipped res') + mset (map fst (errors res')) =
     mset (map fst (created res)) + mset (skipped res) + mset (map fst (errors res)) + mset rs"
proof (induction rs arbitrary: res w)
  case Nil
  then show ?case by simp
next
  case (Cons r rs)
  show ?case
  proof (cases "itemExists P tz r w")
    case (Pair ex w1)
    show ?thesis
    proof (cases ex)
      case True
      with Pair Cons.prems
      have "createItemsLoop cfg P tz rs (res \<lparr> skipped := skipped res @ [r] \<rparr>) w1 = (res', w')"
        by simp
      from Cons.IH [OF this] show ?thesis by simp
    next
      case False
      show ?thesis
      proof (cases "createItem cfg P tz r w1")
        case (Pair outcome w2)
        show ?thesis
        proof (cases outcome)
          case (Inl e)
          with Pair False \<open>itemExists P tz r w = (ex, w1)\<close> Cons.prems
          have "createItemsLoop cfg P tz rs (res \<lparr> errors := errors res @ [(r, e)] \<rparr>) w2 = (res', w')"
            by simp
          from Cons.IH [OF this] show ?thesis by simp
        next
          case (Inr x)
          with Pair False \<open>itemExists P tz r w = (ex, w1)\<close> Cons.prems
          have "createItemsLoop cfg P tz rs (res \<lparr> created := created res @ [(r, x)] \<rparr>) w2 = (res', w')"
            by simp
          from Cons.IH [OF this] show ?thesis by simp
        qed
      qed
    qed
  qed
qed

lemma createItemsLoopEarlier_buckets:
  "createItemsLoopEarlier cfg rs res w = (res', w') \<Longrightarrow>
   length (created res') + length (skipped res') + length (errors res') =
     length (created res) + length (skipped res) + length (errors res) + length rs \<and>
   mset (map fst (created res')) + mset (skipped res') + mset (map fst (errors res')) =
     mset (map fst (created res)) + mset (skipped res) + mset (map fst (errors res)) + mset rs"
proof (induction rs arbitrary: res w)
  case Nil
  then show ?case by simp
next
  case (Cons r rs)
  show ?case
  proof (cases "itemExistsEarlier (ident r) w")
    case (Pair ex w1)
    show ?thesis
    proof (cases ex)
      case True
      with Pair Cons.prems
      have "createItemsLoopEarlier cfg rs (res \<lparr> skipped := skipped res @ [r] \<rparr>) w1 = (res', w')"
        by simp
      from Cons.IH [OF this] show ?thesis by simp
    next
      case False
      show ?thesis
      proof (cases "createItemEarlier cfg r w1")
        case (Pair outcome w2)
        show ?thesis
        proof (cases outcome)
          case (Inl e)
          with Pair False \<open>itemExistsEarlier (ident r) w = (ex, w1)\<close> Cons.prems
          have "createItemsLoopEarlier cfg rs (res \<lparr> errors := errors res @ [(r, e)] \<rparr>) w2 = (res', w')"
            by simp
          from Cons.IH [OF this] show ?thesis by simp
        next
          case (Inr x)
          with Pair False \<open>itemExistsEarlier (ident r) w = (ex, w1)\<close> Cons.prems
          have "createItemsLoopEarlier cfg rs (res \<lparr> created := created res @ [(r, x)] \<rparr>) w2 = (res', w')"
            by simp
          from Cons.IH [OF this] show ?thesis by simp
        qed
      qed
    qed
  qed
qed

text \<open>
  Claim C9. Whatever the CMS does, \<open>createItems\<close> puts every release of its input into
  exactly one of \<open>created\<close>, \<open>skipped\<close> and \<open>errors\<close>: the three lengths add up to the
  length of the input, and the releases of the three buckets together are the releases of
  the input, each as often as it occurs there. For one release: it goes to \<open>skipped\<close>
  when the existence check finds it, to \<open>created\<close> when \<open>createItem\<close> returns, and to
  \<open>errors\<close> with the message when \<open>createItem\<close> throws. The lengths and the releases
  add up in the same way for the earlier version of the client.
\<close>

theorem createItems_partition:
  "length (created (fst (createItems cfg P tz rs w))) +
   length (skipped (fst (createItems cfg P tz rs w))) +
   length (errors (fst (createItems cfg P tz rs w))) = length rs \<and>
   mset (map fst (created (fst (createItems cfg P tz rs w)))) +
   mset (skipped (fst (createItems cfg P tz rs w))) +
   mset (map fst (errors (fst (createItems cfg P tz rs w)))) = mset rs \<and>
   createItems cfg P tz [r] w =
     (case itemExists P tz r w of
        (True, w1) \<Rightarrow> (\<lparr> created = [], skipped = [r], errors = [] \<rparr>, w1)
      | (False, w1) \<Rightarrow>
          (case createItem cfg P tz r w1 of
             (Inr x, w2) \<Rightarrow> (\<lparr> created = [(r, x)], skipped = [], errors = [] \<rparr>, w2)
           | (Inl e, w2) \<Rightarrow> (\<lparr> created = [], skipped = [], errors = [(r, e)] \<rparr>, w2))) \<and>
   length (created (fst (createItemsEarlier cfg rs w))) +
   length (skipped (fst (createItemsEarlier cfg rs w))) +
   length (errors (fst (createItemsEarlier cfg rs w))) = length rs \<and>
   mset (map fst (created (fst (createItemsEarlier cfg rs w)))) +
   mset (skipped (fst (createItemsEarlier cfg rs w))) +
   mset (map fst (errors (fst (createItemsEarlier cfg rs w)))) = mset rs"
proof -
  obtain res2 w2 where early: "createItemsEarlier cfg rs w = (res2, w2)"
    by (cases "createItemsEarlier cfg rs w")
  then have "createItemsLoopEarlier cfg rs \<lparr> created = [], skipped = [], errors = [] \<rparr> w = (res2, w2)"
    by (simp add: createItemsEarlier_def)
  from createItemsLoopEarlier_buckets [OF this] early
  have earlier: "length (created (fst (createItemsEarlier cfg rs w))) +
     length (skipped (fst (createItemsEarlier cfg rs w))) +
     length (errors (fst (createItemsEarlier cfg rs w))) = length rs \<and>
     mset (map fst (created (fst (createItemsEarlier cfg rs w)))) +
     mset (skipped (fst (createItemsEarlier cfg rs w))) +
     mset (map fst (errors (fst (createItemsEarlier cfg rs w)))) = mset rs"
    by simp
  obtain res' w' where run: "createItems cfg P tz rs w = (res', w')"
    by (cases "createItems cfg P tz rs w")
  then have "createItemsLoop cfg P tz rs \<lparr> created = [], skipped = [], errors = [] \<rparr> w = (res', w')"
    by (simp add: createItems_def)
  from createItemsLoop_buckets [OF this] run
  have "length (created (fst (createItems cfg P tz rs w))) +
     length (skipped (fst (createItems cfg P tz rs w))) +
     length (errors (fst (createItems cfg P tz rs w))) = length rs \<and>
     mset (map fst (created (fst (createItems cfg P tz rs w)))) +
     mset (skipped (fst (createItems cfg P tz rs w))) +
     mset (map fst (errors (fst (createItems cfg P tz rs w)))) = mset rs"
    by simp
  moreover have "createItems cfg P tz [r] w =
     (case itemExists P tz r w of
        (True, w1) \<Rightarrow> (\<lparr> created = [], skipped = [r], errors = [] \<rparr>, w1)
      | (False, w1) \<Rightarrow>
          (case createItem cfg P tz r w1 of
             (Inr x, w2) \<Rightarrow> (\<lparr> created = [(r, x)], skipped = [], errors = [] \<rparr>, w2)
           | (Inl e, w2) \<Rightarrow> (\<lparr> created = [], skipped = [], errors = [(r, e)] \<rparr>, w2)))"
    by (simp add: createItems_def split: prod.splits bool.splits sum.splits)
  ultimately show ?thesis using earlier by blast
qed

lemma example_batch:
  "createItems draftConfig exampleParser (\<lambda>t. 0)
     [fullRelease ''Annual Report 2024'' ''2025-06-27'',
      fullRelease ''Quarterly Report'' ''2025-01-05'',
      fullRelease ''Notice of meeting'' ''2025-01-02''] flakyCms =
   (\<lparr> created = [(fullRelease ''Annual Report 2024'' ''2025-06-27'',
                   Some \<lparr> itemId = 1, isDraft = True, slug = str ''annualreport2024-2025-06-27'',
                          name = str ''Annual Report 2024'', bodyHtml = str ''<p>Text</p>'',
                          published = False \<rparr>)],
       skipped = [fullRelease ''Quarterly Report'' ''2025-01-05''],
       errors = [(fullRelease ''Notice of meeting'' ''2025-01-02'',
                  str ''timeout of 30000ms exceeded'')] \<rparr>,
    \<lparr> items = [\<lparr> itemId = 0, isDraft = True, slug = str ''quarterlyreport-2025-01-05'',
                  name = str ''Quarterly Report'', bodyHtml = [], published = False \<rparr>,
               \<lparr> itemId = 1, isDraft = True, slug = str ''annualreport2024-2025-06-27'',
                  name = str ''Annual Report 2024'', bodyHtml = str ''<p>Text</p>'',
                  published = False \<rparr>],
       faults = [] \<rparr>)"
  by (simp add: cms_eval)










theorem createItems_partition_witness:
  "length (created (fst (createItems draftConfig exampleParser (\<lambda>t. 0)
     [fullRelease ''Annual Report 2024'' ''2025-06-27'',
      fullRelease ''Quarterly Report'' ''2025-01-05'',
      fullRelease ''Notice of meeting'' ''2025-01-02''] flakyCms))) = 1 \<and>
   skipped (fst (createItems draftConfig exampleParser (\<lambda>t. 0)
     [fullRelease ''Annual Report 2024'' ''2025-06-27'',
      fullRelease ''Quarterly Report'' ''2025-01-05'',
      fullRelease ''Notice of meeting'' ''2025-01-02''] flakyCms)) =
     [fullRelease ''Quarterly Report'' ''2025-01-05''] \<and>
   errors (fst (createItems draftConfig exampleParser (\<lambda>t. 0)
     [fullRelease ''Annual Report 2024'' ''2025-06-27'',
      fullRelease ''Quarterly Report'' ''2025-01-05'',
      fullRelease ''Notice of meeting'' ''2025-01-02''] flakyCms)) =
     [(fullRelease ''Notice of meeting'' ''2025-01-02'', str ''timeout of 30000ms exceeded'')]"
  using createItems_partition [of draftConfig exampleParser "\<lambda>t. 0"
      "[fullRelease ''Annual Report 2024'' ''2025-06-27'',
        fullRelease ''Quarterly Report'' ''2025-01-05'',
        fullRelease ''Notice of meeting'' ''2025-01-02'']" flakyCms]
  by (simp add: example_batch)




text \<open>
  In the earlier version of the client the slug that \<open>itemExists\<close> looks for
  (\<open>generateSlug\<close> of the id) is not the slug that \<open>createItem\<close> wrote (\<open>generateSlug\<close> of
  the title), so a second call does not find what the first call created: with a CMS
  that answers every request, the release is created again.
\<close>

lemma earlier_version_creates_twice:
  "generateSlug (ident (fallbackRelease exampleRelease 0)) = str ''2025-06-27-annual-report-2024'' \<and>
   generateSlug (title (fallbackRelease exampleRelease 0)) = str ''annualreport2024'' \<and>
   map (fst) (created (fst (createItemsEarlier draftConfig [fallbackRelease exampleRelease 0] emptyCms)))
     = [fallbackRelease exampleRelease 0] \<and>
   map (fst) (created (fst (createItemsEarlier draftConfig [fallbackRelease exampleRelease 0]
     (snd (createItemsEarlier draftConfig [fallbackRelease exampleRelease 0] emptyCms)))))
     = [fallbackRelease exampleRelease 0] \<and>
   map slug (items (snd (createItemsEarlier draftConfig [fallbackRelease exampleRelease 0]
     (snd (createItemsEarlier draftConfig [fallbackRelease exampleRelease 0] emptyCms)))))
     = [str ''annualreport2024'', str ''annualreport2024'']"
proof -
  have i: "generateSlug (str ''2025-06-27-annual-report-2024'') = str ''2025-06-27-annual-report-2024''"
    by (simp add: generateSlug_def slugUnit_def substring0_def trim_def trimStart_def
        isSpace_def str_def)
  have t: "generateSlug (str ''Annual Report 2024'') = str ''annualreport2024''"
    by (simp add: generateSlug_def slugUnit_def substring0_def trim_def trimStart_def
        isSpace_def str_def)
  show ?thesis
    by (simp add: createItemsEarlier_def itemExistsEarlier_def createItemEarlier_def
        createAttemptEarlier_def request_def attemptsOf_def retry.simps draftConfig_def
        emptyCms_def fallbackRelease_def withContent_def exampleRelease_def i t Let_def)
qed

section \<open>Properties of the run\<close>

lemma length_lastN: "length (lastN n xs) \<le> n"
  by (simp add: lastN_def)

lemma updated_history_bounded:
  "updatedProcessedData pd res now = Inr upd \<Longrightarrow> length (statsErrors (stats upd)) \<le> 10"
  by (auto simp: updatedProcessedData_def length_lastN split: sum.splits)

lemma fatal_history_grows:
  "writable d \<Longrightarrow>
   statsErrors (stats (loadProcessedData (saveFatalError d e now))) =
     statsErrors (stats (loadProcessedData d)) @
       [\<lparr> errorTitle = None, errorMessage = e, errorTimestamp = now, fatal = True \<rparr>]"
  by (simp add: saveFatalError_def saveProcessedData_def loadProcessedData_def Let_def)

text \<open>
  Claim C7 fails on the path of a fatal failure. A run that completes stores at most 10
  entries (\<open>updated_history_bounded\<close>), but the \<open>catch\<close> of \<open>run\<close> pushes the failure
  onto the stored history without cutting it (\<open>fatal_history_grows\<close>): with 10 entries in
  the store, a run that cannot reach the CMS exits with code 1 and leaves 11.
\<close>

theorem fatal_run_exceeds_error_bound:
  "length (statsErrors (stats (loadProcessedData fullStore))) = 10 \<and>
   exitCode (run exampleConfig exampleEnv False 0 fullStore downCms) = 1 \<and>
   length (statsErrors (stats (loadProcessedData
     (diskAfter (run exampleConfig exampleEnv False 0 fullStore downCms))))) = 11"
  by (simp add: run_def exampleEnv_def testConnection_def request_def downCms_def
      fullStore_def saveFatalError_def saveProcessedData_def loadProcessedData_def Let_def)




















end
